theory Spec2Isabelle
  imports Complex_Main
begin

section \<open>The notebook \<open>deepseek-r1-distilled-llama-70b.ipynb\<close>\<close>

text \<open>
  The notebook defines three functions, \<open>load_model\<close>, \<open>generate_text\<close> and
  \<open>clear_gpu_memory\<close>. Each is a short sequence of calls into libraries the notebook
  imports (\<open>transformers\<close>, \<open>torch\<close>, \<open>gc\<close>) and the built-in \<open>print\<close>. The libraries
  are not part of the notebook, so they are a parameter of the model: an environment
  \<open>env\<close> holding one operation for each routine the notebook calls. Each operation
  reads and updates a world \<open>'w\<close> (weights, device memory, the random generator, the
  console) and either returns a value or raises an exception of the library, of
  type \<open>'e\<close>.
\<close>

subsection \<open>Python values\<close>

text \<open>
  The four generation parameters are untyped in the source. They range over the
  scalar values of Python: \<open>None\<close>, booleans, integers (unbounded), floats and
  strings. A float is represented by the real number it denotes (the notebook never
  computes with one; \<open>nan\<close> and the infinities are left out).
\<close>

datatype pyval = PyNone | PyBool bool | PyInt int | PyFloat real | PyStr string

text \<open>The numeric value of a number; \<open>True\<close> is 1 and \<open>False\<close> is 0 in Python.\<close>

fun py_num :: "pyval \<Rightarrow> real option" where
  "py_num (PyBool b) = Some (if b then 1 else 0)"
| "py_num (PyInt n) = Some (of_int n)"
| "py_num (PyFloat x) = Some x"
| "py_num PyNone = None"
| "py_num (PyStr s) = None"

text \<open>Python's \<open>==\<close> on these values: numbers compare by value across \<open>bool\<close>,
  \<open>int\<close> and \<open>float\<close>; a number never equals \<open>None\<close> or a string.\<close>

definition py_eq :: "pyval \<Rightarrow> pyval \<Rightarrow> bool" where
  "py_eq a b =
     (case (py_num a, py_num b) of
        (Some x, Some y) \<Rightarrow> x = y
      | (None, None) \<Rightarrow> a = b
      | _ \<Rightarrow> False)"

subsection \<open>Arguments of the library calls\<close>

datatype dtype = float16 | bfloat16 | float32

text \<open>The arguments of \<open>AutoModelForCausalLM.from_pretrained\<close>.\<close>

record from_pretrained_args =
  arg_model_name :: string
  kw_torch_dtype :: dtype
  kw_device_map :: string
  kw_trust_remote_code :: bool

text \<open>The arguments of \<open>model.generate\<close>. A tensor of token identifiers is a list of
  rows, one row for each sequence.\<close>

record generate_args =
  arg_input_ids :: "int list list"
  kw_max_length :: pyval
  kw_temperature :: pyval
  kw_do_sample :: bool
  kw_top_p :: pyval
  kw_num_return_sequences :: pyval
  kw_pad_token_id :: "int option"

text \<open>What the tokenizer returns: the notebook reads its \<open>input_ids\<close> only.\<close>

record batch_encoding =
  input_ids :: "int list list"

text \<open>The line \<open>clear_gpu_memory\<close> prints is formatted from the device index and the
  number of bytes \<open>torch.cuda.memory_allocated\<close> returned.\<close>

datatype message = GPU_memory_allocated int int

subsection \<open>The environment\<close>

text \<open>
  One field for each routine of the libraries that the notebook calls; a method takes
  its object first. \<open>tokenizer_call\<close> is \<open>tokenizer(prompt, return_tensors=...)\<close> and
  \<open>encoding_to\<close> is the \<open>.to(device)\<close> of what it returns. The attributes
  \<open>model.device\<close> and \<open>tokenizer.eos_token_id\<close> are read, not called: they are
  functions of the handle alone (\<open>eos_token_id\<close> is \<open>None\<close> for a tokenizer without
  an end-of-sequence token).
\<close>

record ('w, 'e, 'm, 't) env =
  AutoTokenizer_from_pretrained :: "string \<Rightarrow> 'w \<Rightarrow> ('e + 't) \<times> 'w"
  AutoModelForCausalLM_from_pretrained :: "from_pretrained_args \<Rightarrow> 'w \<Rightarrow> ('e + 'm) \<times> 'w"
  tokenizer_call :: "'t \<Rightarrow> string \<Rightarrow> string \<Rightarrow> 'w \<Rightarrow> ('e + batch_encoding) \<times> 'w"
  encoding_to :: "batch_encoding \<Rightarrow> string \<Rightarrow> 'w \<Rightarrow> ('e + batch_encoding) \<times> 'w"
  model_device :: "'m \<Rightarrow> string"
  model_generate :: "'m \<Rightarrow> generate_args \<Rightarrow> 'w \<Rightarrow> ('e + int list list) \<times> 'w"
  eos_token_id :: "'t \<Rightarrow> int option"
  tokenizer_decode :: "'t \<Rightarrow> int list \<Rightarrow> bool \<Rightarrow> 'w \<Rightarrow> ('e + string) \<times> 'w"
  gc_collect :: "'w \<Rightarrow> ('e + unit) \<times> 'w"
  torch_cuda_empty_cache :: "'w \<Rightarrow> ('e + unit) \<times> 'w"
  torch_cuda_is_available :: "'w \<Rightarrow> ('e + bool) \<times> 'w"
  torch_cuda_device_count :: "'w \<Rightarrow> ('e + int) \<times> 'w"
  torch_cuda_memory_allocated :: "int \<Rightarrow> 'w \<Rightarrow> ('e + int) \<times> 'w"
  builtin_print :: "message \<Rightarrow> 'w \<Rightarrow> ('e + unit) \<times> 'w"

subsection \<open>Exceptions, the record of calls, the state\<close>

text \<open>An exception is one the library raised, or one of Python's own: the
  \<open>IndexError\<close> of list indexing, the \<open>OverflowError\<close> of turning an integer into a
  float.\<close>

datatype 'e pyexn = IndexError | OverflowError | FrameworkError 'e

datatype call =
    Call_AutoTokenizer_from_pretrained string
  | Call_AutoModelForCausalLM_from_pretrained from_pretrained_args
  | Call_tokenizer string string
  | Call_to string
  | Call_generate generate_args
  | Call_decode "int list" bool
  | Call_gc_collect
  | Call_empty_cache
  | Call_is_available
  | Call_device_count
  | Call_memory_allocated int
  | Call_print message

datatype 'e outcome = Returned | Raised 'e

text \<open>
  The state is the world together with the list of the calls made so far, each with
  its outcome. The list is not in the source: it is kept so that what a function
  calls, with which arguments and in which order, can be stated.
\<close>

record ('w, 'e) state =
  world :: 'w
  calls :: "(call \<times> 'e outcome) list"

text \<open>One call into the environment: run the operation on the world, record the call
  and its outcome, and hand an exception on as it is.\<close>

definition ext :: "call \<Rightarrow> ('w \<Rightarrow> ('e + 'a) \<times> 'w) \<Rightarrow> ('w, 'e) state
    \<Rightarrow> ('e pyexn + 'a) \<times> ('w, 'e) state" where
  "ext c f s =
     (case f (world s) of
        (Inl e, w) \<Rightarrow> (Inl (FrameworkError e), \<lparr>world = w, calls = calls s @ [(c, Raised e)]\<rparr>)
      | (Inr a, w) \<Rightarrow> (Inr a, \<lparr>world = w, calls = calls s @ [(c, Returned)]\<rparr>))"

subsection \<open>\<open>load_model\<close>\<close>

text \<open>
  \<^verbatim>\<open>
  def load_model(model_name="deepseek-ai/DeepSeek-R1-Distill-Llama-70B"):
      tokenizer = AutoTokenizer.from_pretrained(model_name)
      model = AutoModelForCausalLM.from_pretrained(
          model_name, torch_dtype=torch.float16, device_map="auto",
          trust_remote_code=True)
      return model, tokenizer
  \<close>
  An optional argument is an \<open>option\<close>: \<open>None\<close> when the caller leaves it out.
\<close>

definition load_model_body :: "('w, 'e, 'm, 't) env \<Rightarrow> string \<Rightarrow> ('w, 'e) state
    \<Rightarrow> ('e pyexn + 'm \<times> 't) \<times> ('w, 'e) state" where
  "load_model_body env model_name s =
     (case ext (Call_AutoTokenizer_from_pretrained model_name)
             (AutoTokenizer_from_pretrained env model_name) s of
        (Inl e, s1) \<Rightarrow> (Inl e, s1)
      | (Inr tokenizer, s1) \<Rightarrow>
          (let args = \<lparr>arg_model_name = model_name, kw_torch_dtype = float16,
                       kw_device_map = ''auto'', kw_trust_remote_code = True\<rparr>
           in case ext (Call_AutoModelForCausalLM_from_pretrained args)
                     (AutoModelForCausalLM_from_pretrained env args) s1 of
                (Inl e, s2) \<Rightarrow> (Inl e, s2)
              | (Inr model, s2) \<Rightarrow> (Inr (model, tokenizer), s2)))"

definition load_model :: "('w, 'e, 'm, 't) env \<Rightarrow> string option \<Rightarrow> ('w, 'e) state
    \<Rightarrow> ('e pyexn + 'm \<times> 't) \<times> ('w, 'e) state" where
  "load_model env model_name =
     load_model_body env
       (case model_name of None \<Rightarrow> ''deepseek-ai/DeepSeek-R1-Distill-Llama-70B'' | Some n \<Rightarrow> n)"

subsection \<open>\<open>generate_text\<close>\<close>

text \<open>The value \<open>generate_text\<close> returns: one string, or a list of strings.\<close>

datatype generated = Single string | Sequence "string list"

text \<open>
  The list comprehension
  \<^verbatim>\<open>[tokenizer.decode(output, skip_special_tokens=True) for output in outputs]\<close>
  decodes the rows from first to last and stops at the first exception.
\<close>

fun generated_texts :: "('w, 'e, 'm, 't) env \<Rightarrow> 't \<Rightarrow> int list list \<Rightarrow> ('w, 'e) state
    \<Rightarrow> ('e pyexn + string list) \<times> ('w, 'e) state" where
  "generated_texts env tokenizer [] s = (Inr [], s)"
| "generated_texts env tokenizer (output # outputs) s =
     (case ext (Call_decode output True) (tokenizer_decode env tokenizer output True) s of
        (Inl e, s1) \<Rightarrow> (Inl e, s1)
      | (Inr text, s1) \<Rightarrow>
          (case generated_texts env tokenizer outputs s1 of
             (Inl e, s2) \<Rightarrow> (Inl e, s2)
           | (Inr texts, s2) \<Rightarrow> (Inr (text # texts), s2)))"

text \<open>
  \<^verbatim>\<open>
  def generate_text(prompt, model, tokenizer, max_length=100, temperature=0.7,
                    top_p=0.9, num_return_sequences=1):
      inputs = tokenizer(prompt, return_tensors="pt").to(model.device)
      outputs = model.generate(
          inputs.input_ids,
          max_length=max_length,
          temperature=temperature,
          do_sample=True,
          top_p=top_p,
          num_return_sequences=num_return_sequences,
          pad_token_id=tokenizer.eos_token_id)
      generated_texts = [
          tokenizer.decode(output, skip_special_tokens=True)
          for output in outputs]
      return generated_texts[0] if num_return_sequences == 1 else generated_texts
  \<close>
\<close>

definition generate_text_body :: "('w, 'e, 'm, 't) env \<Rightarrow> string \<Rightarrow> 'm \<Rightarrow> 't
    \<Rightarrow> pyval \<Rightarrow> pyval \<Rightarrow> pyval \<Rightarrow> pyval \<Rightarrow> ('w, 'e) state
    \<Rightarrow> ('e pyexn + generated) \<times> ('w, 'e) state" where
  "generate_text_body env prompt model tokenizer max_length temperature top_p
       num_return_sequences s =
     (case ext (Call_tokenizer prompt ''pt'') (tokenizer_call env tokenizer prompt ''pt'') s of
        (Inl e, s1) \<Rightarrow> (Inl e, s1)
      | (Inr encoding, s1) \<Rightarrow>
     (case ext (Call_to (model_device env model))
             (encoding_to env encoding (model_device env model)) s1 of
        (Inl e, s2) \<Rightarrow> (Inl e, s2)
      | (Inr inputs, s2) \<Rightarrow>
     (let args = \<lparr>arg_input_ids = input_ids inputs,
                  kw_max_length = max_length,
                  kw_temperature = temperature,
                  kw_do_sample = True,
                  kw_top_p = top_p,
                  kw_num_return_sequences = num_return_sequences,
                  kw_pad_token_id = eos_token_id env tokenizer\<rparr>
      in case ext (Call_generate args) (model_generate env model args) s2 of
        (Inl e, s3) \<Rightarrow> (Inl e, s3)
      | (Inr outputs, s3) \<Rightarrow>
     (case generated_texts env tokenizer outputs s3 of
        (Inl e, s4) \<Rightarrow> (Inl e, s4)
      | (Inr texts, s4) \<Rightarrow>
          (if py_eq num_return_sequences (PyInt 1)
           then (case texts of
                   [] \<Rightarrow> (Inl IndexError, s4)
                 | text # _ \<Rightarrow> (Inr (Single text), s4))
           else (Inr (Sequence texts), s4))))))"

definition generate_text :: "('w, 'e, 'm, 't) env \<Rightarrow> string \<Rightarrow> 'm \<Rightarrow> 't
    \<Rightarrow> pyval option \<Rightarrow> pyval option \<Rightarrow> pyval option \<Rightarrow> pyval option \<Rightarrow> ('w, 'e) state
    \<Rightarrow> ('e pyexn + generated) \<times> ('w, 'e) state" where
  "generate_text env prompt model tokenizer max_length temperature top_p
       num_return_sequences =
     generate_text_body env prompt model tokenizer
       (case max_length of None \<Rightarrow> PyInt 100 | Some v \<Rightarrow> v)
       (case temperature of None \<Rightarrow> PyFloat 0.7 | Some v \<Rightarrow> v)
       (case top_p of None \<Rightarrow> PyFloat 0.9 | Some v \<Rightarrow> v)
       (case num_return_sequences of None \<Rightarrow> PyInt 1 | Some v \<Rightarrow> v)"

subsection \<open>\<open>clear_gpu_memory\<close>\<close>

text \<open>
  \<^verbatim>\<open>
  def clear_gpu_memory():
      import gc
      gc.collect()
      torch.cuda.empty_cache()
      if torch.cuda.is_available():
          for i in range(torch.cuda.device_count()):
              print(f"GPU {i} memory allocated: {torch.cuda.memory_allocated(i) / 1e9:.2f} GB")
  \<close>
  The \<open>import\<close> of the standard module \<open>gc\<close> has no part in the model.

  The division \<open>bytes / 1e9\<close> first turns the integer into a float, rounding to the
  nearest one. The largest float is \<open>2^1024 - 2^971\<close>; an integer of magnitude
  \<open>2^1024 - 2^970\<close> or more rounds beyond it, and Python raises \<open>OverflowError\<close>.
\<close>

definition fits_float :: "int \<Rightarrow> bool" where
  "fits_float n = (\<bar>n\<bar> < 2 ^ 1024 - 2 ^ 970)"

text \<open>The body of the loop, over the indices \<open>range\<close> gives: ask for the memory of
  device \<open>i\<close>, divide, print the line.\<close>

fun report_devices :: "('w, 'e, 'm, 't) env \<Rightarrow> int list \<Rightarrow> ('w, 'e) state
    \<Rightarrow> ('e pyexn + unit) \<times> ('w, 'e) state" where
  "report_devices env [] s = (Inr (), s)"
| "report_devices env (i # is) s =
     (case ext (Call_memory_allocated i) (torch_cuda_memory_allocated env i) s of
        (Inl e, s1) \<Rightarrow> (Inl e, s1)
      | (Inr bytes, s1) \<Rightarrow>
          (if \<not> fits_float bytes then (Inl OverflowError, s1)
           else (case ext (Call_print (GPU_memory_allocated i bytes))
                        (builtin_print env (GPU_memory_allocated i bytes)) s1 of
                   (Inl e, s2) \<Rightarrow> (Inl e, s2)
                 | (Inr u, s2) \<Rightarrow> report_devices env is s2)))"

text \<open>\<open>range(n)\<close> is \<open>0, 1, ..., n - 1\<close>, and empty when \<open>n \<le> 0\<close>.\<close>

definition py_range :: "int \<Rightarrow> int list" where
  "py_range n = [0..n - 1]"

definition clear_gpu_memory :: "('w, 'e, 'm, 't) env \<Rightarrow> ('w, 'e) state
    \<Rightarrow> ('e pyexn + unit) \<times> ('w, 'e) state" where
  "clear_gpu_memory env s =
     (case ext Call_gc_collect (gc_collect env) s of
        (Inl e, s1) \<Rightarrow> (Inl e, s1)
      | (Inr u, s1) \<Rightarrow>
     (case ext Call_empty_cache (torch_cuda_empty_cache env) s1 of
        (Inl e, s2) \<Rightarrow> (Inl e, s2)
      | (Inr u, s2) \<Rightarrow>
     (case ext Call_is_available (torch_cuda_is_available env) s2 of
        (Inl e, s3) \<Rightarrow> (Inl e, s3)
      | (Inr available, s3) \<Rightarrow>
          (if available
           then (case ext Call_device_count (torch_cuda_device_count env) s3 of
                   (Inl e, s4) \<Rightarrow> (Inl e, s4)
                 | (Inr n, s4) \<Rightarrow> report_devices env (py_range n) s4)
           else (Inr (), s3)))))"

subsection \<open>A small environment to run the functions on\<close>

text \<open>
  The world is a counter of the sampling runs, an exception is its message, a handle
  is the name of its checkpoint. With \<open>cuda\<close> the machine has two devices; without,
  it has none and no checkpoint fits in memory. The tokenizer gives one row holding
  the length of the prompt; \<open>generate\<close> gives the rows \<open>[0]\<close>, \<open>[1]\<close>, ... as many as
  asked for, and refuses a count that is not a non-negative integer; \<open>decode\<close> turns
  the row \<open>[k]\<close> into \<open>k\<close> letters.
\<close>

definition demo_env :: "bool \<Rightarrow> (nat, string, string, string) env" where
  "demo_env cuda =
     \<lparr>AutoTokenizer_from_pretrained = (\<lambda>name w. (Inr name, w)),
      AutoModelForCausalLM_from_pretrained =
        (\<lambda>args w. if cuda then (Inr (arg_model_name args), w)
                   else (Inl ''out of memory'', w)),
      tokenizer_call = (\<lambda>t prompt rt w. (Inr \<lparr>input_ids = [[int (length prompt)]]\<rparr>, w)),
      encoding_to = (\<lambda>enc dev w. (Inr enc, w)),
      model_device = (\<lambda>m. if cuda then ''cuda:0'' else ''cpu''),
      model_generate =
        (\<lambda>m args w. case kw_num_return_sequences args of
                       PyInt n \<Rightarrow> if 0 \<le> n then (Inr (map (\<lambda>k. [int k]) [0..<nat n]), Suc w)
                                  else (Inl ''bad count'', w)
                     | _ \<Rightarrow> (Inl ''bad count'', w)),
      eos_token_id = (\<lambda>t. Some 2),
      tokenizer_decode = (\<lambda>t out skip w. (Inr (replicate (nat (sum_list out)) CHR ''a''), w)),
      gc_collect = (\<lambda>w. (Inr (), w)),
      torch_cuda_empty_cache = (\<lambda>w. (Inr (), w)),
      torch_cuda_is_available = (\<lambda>w. (Inr cuda, w)),
      torch_cuda_device_count = (\<lambda>w. (Inr (if cuda then 2 else 0), w)),
      torch_cuda_memory_allocated = (\<lambda>i w. (Inr (1000 * i), w)),
      builtin_print = (\<lambda>msg w. (Inr (), w))\<rparr>"

definition start :: "(nat, string) state" where
  "start = \<lparr>world = 0, calls = []\<rparr>"


text \<open>The same environment in which the routine named raises; \<open>decode\<close> raises on the
  row \<open>[1]\<close> only.\<close>

definition demo_env_raising :: "string \<Rightarrow> (nat, string, string, string) env" where
  "demo_env_raising routine = (demo_env True)
     \<lparr>AutoTokenizer_from_pretrained :=
        (\<lambda>name w. if routine = ''AutoTokenizer'' then (Inl ''offline'', w) else (Inr name, w)),
      tokenizer_call :=
        (\<lambda>t prompt rt w. if routine = ''tokenizer'' then (Inl ''bad prompt'', w)
                         else (Inr \<lparr>input_ids = [[int (length prompt)]]\<rparr>, w)),
      encoding_to :=
        (\<lambda>enc dev w. if routine = ''to'' then (Inl ''no device'', w) else (Inr enc, w)),
      tokenizer_decode :=
        (\<lambda>t out skip w. if routine = ''decode'' \<and> out = [1] then (Inl ''bad token'', w)
                         else (Inr (replicate (nat (sum_list out)) CHR ''a''), w))\<rparr>"

text \<open>A \<open>generate\<close> that does as that of the small environment where \<open>known\<close> holds of
  its arguments, and raises elsewhere.\<close>

definition generate_where :: "(generate_args \<Rightarrow> bool)
    \<Rightarrow> string \<Rightarrow> generate_args \<Rightarrow> nat \<Rightarrow> (string + int list list) \<times> nat" where
  "generate_where known m args w =
     (if known args then model_generate (demo_env True) m args w
      else (Inl ''unexpected arguments'', w))"

section \<open>Single calls into the environment\<close>

lemma ext_Inl:
  "f (world s) = (Inl e, w) \<Longrightarrow>
   ext c f s = (Inl (FrameworkError e), \<lparr>world = w, calls = calls s @ [(c, Raised e)]\<rparr>)"
  by (simp add: ext_def)

lemma ext_Inr:
  "f (world s) = (Inr a, w) \<Longrightarrow>
   ext c f s = (Inr a, \<lparr>world = w, calls = calls s @ [(c, Returned)]\<rparr>)"
  by (simp add: ext_def)

lemma ext_cases:
  obtains (raised) e w where "f (world s) = (Inl e, w)"
      and "ext c f s = (Inl (FrameworkError e), \<lparr>world = w, calls = calls s @ [(c, Raised e)]\<rparr>)"
    | (returned) a w where "f (world s) = (Inr a, w)"
      and "ext c f s = (Inr a, \<lparr>world = w, calls = calls s @ [(c, Returned)]\<rparr>)"
proof (cases "f (world s)")
  case (Pair r w)
  show ?thesis
  proof (cases r)
    case (Inl e)
    with Pair that(1) show ?thesis by (simp add: ext_Inl)
  next
    case (Inr a)
    with Pair that(2) show ?thesis by (simp add: ext_Inr)
  qed
qed

section \<open>The decoding of the rows\<close>


lemma generated_texts_total:
  assumes total: "\<forall>out w. \<exists>text w'. tokenizer_decode env tokenizer out True w = (Inr text, w')"
  shows "\<exists>texts s'. generated_texts env tokenizer outputs s = (Inr texts, s') \<and>
           (\<forall>i < length outputs. \<exists>w w'.
              tokenizer_decode env tokenizer (outputs ! i) True w = (Inr (texts ! i), w'))"
proof (induction outputs arbitrary: s)
  case Nil
  then show ?case by simp
next
  case (Cons out outs)
  from total obtain str w
    where dec: "tokenizer_decode env tokenizer out True (world s) = (Inr str, w)"
    by blast
  let ?s1 = "\<lparr>world = w, calls = calls s @ [(Call_decode out True, Returned)]\<rparr>"
  from Cons.IH [of ?s1] obtain texts s'
    where run: "generated_texts env tokenizer outs ?s1 = (Inr texts, s')"
      and each: "\<forall>i < length outs. \<exists>w w'.
              tokenizer_decode env tokenizer (outs ! i) True w = (Inr (texts ! i), w')"
    by blast
  have "generated_texts env tokenizer (out # outs) s = (Inr (str # texts), s')"
    using dec run by (simp add: ext_Inr)
  moreover have "\<forall>i < length (out # outs). \<exists>w w'.
      tokenizer_decode env tokenizer ((out # outs) ! i) True w = (Inr ((str # texts) ! i), w')"
    using dec each by (auto simp: nth_Cons split: nat.splits)
  ultimately show ?case by blast
qed

section \<open>The runs of \<open>generate_text\<close>\<close>

lemma generate_text_body_tokenizer_raises:
  assumes "tokenizer_call env tokenizer prompt ''pt'' (world s) = (Inl e, w1)"
  shows "generate_text_body env prompt model tokenizer max_length temperature top_p
           num_return_sequences s =
         (Inl (FrameworkError e),
          \<lparr>world = w1, calls = calls s @ [(Call_tokenizer prompt ''pt'', Raised e)]\<rparr>)"
  using assms by (simp add: generate_text_body_def ext_Inl)

lemma generate_text_body_to_raises:
  assumes "tokenizer_call env tokenizer prompt ''pt'' (world s) = (Inr enc, w1)"
    and "encoding_to env enc (model_device env model) w1 = (Inl e, w2)"
  shows "generate_text_body env prompt model tokenizer max_length temperature top_p
           num_return_sequences s =
         (Inl (FrameworkError e),
          \<lparr>world = w2, calls = calls s @
             [(Call_tokenizer prompt ''pt'', Returned),
              (Call_to (model_device env model), Raised e)]\<rparr>)"
  using assms by (simp add: generate_text_body_def ext_Inl ext_Inr)

lemma generate_text_body_generate_raises:
  assumes "tokenizer_call env tokenizer prompt ''pt'' (world s) = (Inr enc, w1)"
    and "encoding_to env enc (model_device env model) w1 = (Inr inputs, w2)"
    and "args = \<lparr>arg_input_ids = input_ids inputs, kw_max_length = max_length,
                  kw_temperature = temperature, kw_do_sample = True, kw_top_p = top_p,
                  kw_num_return_sequences = num_return_sequences,
                  kw_pad_token_id = eos_token_id env tokenizer\<rparr>"
    and "model_generate env model args w2 = (Inl e, w3)"
  shows "generate_text_body env prompt model tokenizer max_length temperature top_p
           num_return_sequences s =
         (Inl (FrameworkError e),
          \<lparr>world = w3, calls = calls s @
             [(Call_tokenizer prompt ''pt'', Returned),
              (Call_to (model_device env model), Returned),
              (Call_generate args, Raised e)]\<rparr>)"
  using assms by (simp add: generate_text_body_def ext_Inl ext_Inr)

lemma generate_text_body_generated:
  assumes "tokenizer_call env tokenizer prompt ''pt'' (world s) = (Inr enc, w1)"
    and "encoding_to env enc (model_device env model) w1 = (Inr inputs, w2)"
    and "args = \<lparr>arg_input_ids = input_ids inputs, kw_max_length = max_length,
                  kw_temperature = temperature, kw_do_sample = True, kw_top_p = top_p,
                  kw_num_return_sequences = num_return_sequences,
                  kw_pad_token_id = eos_token_id env tokenizer\<rparr>"
    and "model_generate env model args w2 = (Inr outputs, w3)"
  shows "generate_text_body env prompt model tokenizer max_length temperature top_p
           num_return_sequences s =
         (case generated_texts env tokenizer outputs
                 \<lparr>world = w3, calls = calls s @
                    [(Call_tokenizer prompt ''pt'', Returned),
                     (Call_to (model_device env model), Returned),
                     (Call_generate args, Returned)]\<rparr> of
            (Inl x, s4) \<Rightarrow> (Inl x, s4)
          | (Inr texts, s4) \<Rightarrow>
              (if py_eq num_return_sequences (PyInt 1)
               then (case texts of
                       [] \<Rightarrow> (Inl IndexError, s4)
                     | t # _ \<Rightarrow> (Inr (Single t), s4))
               else (Inr (Sequence texts), s4)))"
  using assms by (simp add: generate_text_body_def ext_Inl ext_Inr)

text \<open>Every run of \<open>generate_text_body\<close> is one of these four.\<close>

lemma generate_text_body_run:
  fixes env :: "('w, 'e, 'm, 't) env"
  obtains (tokenizer_raises) e w1
      where "tokenizer_call env tokenizer prompt ''pt'' (world s) = (Inl e, w1)"
    | (to_raises) enc w1 e w2
      where "tokenizer_call env tokenizer prompt ''pt'' (world s) = (Inr enc, w1)"
        and "encoding_to env enc (model_device env model) w1 = (Inl e, w2)"
    | (generate_raises) enc w1 inputs w2 e w3
      where "tokenizer_call env tokenizer prompt ''pt'' (world s) = (Inr enc, w1)"
        and "encoding_to env enc (model_device env model) w1 = (Inr inputs, w2)"
        and "model_generate env model
               \<lparr>arg_input_ids = input_ids inputs, kw_max_length = max_length,
                kw_temperature = temperature, kw_do_sample = True, kw_top_p = top_p,
                kw_num_return_sequences = num_return_sequences,
                kw_pad_token_id = eos_token_id env tokenizer\<rparr> w2 = (Inl e, w3)"
    | (generated) enc w1 inputs w2 outputs w3
      where "tokenizer_call env tokenizer prompt ''pt'' (world s) = (Inr enc, w1)"
        and "encoding_to env enc (model_device env model) w1 = (Inr inputs, w2)"
        and "model_generate env model
               \<lparr>arg_input_ids = input_ids inputs, kw_max_length = max_length,
                kw_temperature = temperature, kw_do_sample = True, kw_top_p = top_p,
                kw_num_return_sequences = num_return_sequences,
                kw_pad_token_id = eos_token_id env tokenizer\<rparr> w2 = (Inr outputs, w3)"
proof (cases "tokenizer_call env tokenizer prompt ''pt'' (world s)")
  case tok: (Pair r1 w1)
  show ?thesis
  proof (cases r1)
    case (Inl e)
    with tok tokenizer_raises show ?thesis by simp
  next
    case enc: (Inr enc)
    show ?thesis
    proof (cases "encoding_to env enc (model_device env model) w1")
      case to: (Pair r2 w2)
      show ?thesis
      proof (cases r2)
        case (Inl e)
        with tok enc to to_raises show ?thesis by simp
      next
        case inputs: (Inr inputs)
        let ?args = "\<lparr>arg_input_ids = input_ids inputs, kw_max_length = max_length,
                kw_temperature = temperature, kw_do_sample = True, kw_top_p = top_p,
                kw_num_return_sequences = num_return_sequences,
                kw_pad_token_id = eos_token_id env tokenizer\<rparr>"
        show ?thesis
        proof (cases "model_generate env model ?args w2")
          case gen: (Pair r3 w3)
          show ?thesis
          proof (cases r3)
            case (Inl e)
            with tok enc to inputs gen generate_raises show ?thesis by simp
          next
            case (Inr outputs)
            with tok enc to inputs gen generated show ?thesis by simp
          qed
        qed
      qed
    qed
  qed
qed

lemma generated_texts_head:
  assumes "generated_texts env tokenizer (out # outs) s = (Inr texts, s')"
  shows "\<exists>w' rest. tokenizer_decode env tokenizer out True (world s) = (Inr (hd texts), w') \<and>
           texts = hd texts # rest"
proof (cases rule: ext_cases [of "tokenizer_decode env tokenizer out True" s "Call_decode out True"])
  case (raised e w)
  with assms show ?thesis by simp
next
  case (returned str w)
  with assms show ?thesis by (auto split: sum.splits prod.splits)
qed

lemma generated_texts_raises_at:
  assumes "generated_texts env tokenizer pre s = (Inr texts, s4)"
    and "tokenizer_decode env tokenizer row True (world s4) = (Inl e, w5)"
  shows "generated_texts env tokenizer (pre @ row # post) s =
         (Inl (FrameworkError e),
          \<lparr>world = w5, calls = calls s4 @ [(Call_decode row True, Raised e)]\<rparr>)"
  using assms
proof (induction pre arbitrary: s texts)
  case Nil
  then show ?case by (simp add: ext_Inl)
next
  case (Cons out outs)
  show ?case
  proof (cases rule: ext_cases [of "tokenizer_decode env tokenizer out True" s "Call_decode out True"])
    case (raised e' w)
    with Cons.prems(1) show ?thesis by simp
  next
    case (returned str w)
    let ?s1 = "\<lparr>world = w, calls = calls s @ [(Call_decode out True, Returned)]\<rparr>"
    from Cons.prems(1) returned obtain rest
      where run: "generated_texts env tokenizer outs ?s1 = (Inr rest, s4)"
      by (auto split: sum.splits prod.splits)
    from Cons.IH [OF run Cons.prems(2)] returned show ?thesis
      by simp
  qed
qed

lemma generate_text_body_decode_raises:
  assumes "tokenizer_call env tokenizer prompt ''pt'' (world s) = (Inr enc, w1)"
    and "encoding_to env enc (model_device env model) w1 = (Inr inputs, w2)"
    and "args = \<lparr>arg_input_ids = input_ids inputs, kw_max_length = max_length,
                  kw_temperature = temperature, kw_do_sample = True, kw_top_p = top_p,
                  kw_num_return_sequences = num_return_sequences,
                  kw_pad_token_id = eos_token_id env tokenizer\<rparr>"
    and "model_generate env model args w2 = (Inr (pre @ row # post), w3)"
    and "generated_texts env tokenizer pre
           \<lparr>world = w3, calls = calls s @
              [(Call_tokenizer prompt ''pt'', Returned),
               (Call_to (model_device env model), Returned),
               (Call_generate args, Returned)]\<rparr> = (Inr texts, s4)"
    and "tokenizer_decode env tokenizer row True (world s4) = (Inl e, w5)"
  shows "generate_text_body env prompt model tokenizer max_length temperature top_p
           num_return_sequences s =
         (Inl (FrameworkError e),
          \<lparr>world = w5, calls = calls s4 @ [(Call_decode row True, Raised e)]\<rparr>)"
  using generate_text_body_generated [OF assms(1-4)] generated_texts_raises_at [OF assms(5,6)]
  by simp

lemma generated_texts_other_generate:
  "generated_texts (env\<lparr>model_generate := g\<rparr>) tokenizer outputs s =
   generated_texts env tokenizer outputs s"
  by (induction outputs arbitrary: s) (simp_all split: prod.splits sum.splits)

lemma generate_text_body_other_generate:
  fixes env :: "('w, 'e, 'm, 't) env"
  assumes "\<forall>ids w.
      g model \<lparr>arg_input_ids = ids, kw_max_length = max_length,
               kw_temperature = temperature, kw_do_sample = True, kw_top_p = top_p,
               kw_num_return_sequences = num_return_sequences,
               kw_pad_token_id = eos_token_id env tokenizer\<rparr> w =
      model_generate env model \<lparr>arg_input_ids = ids, kw_max_length = max_length,
               kw_temperature = temperature, kw_do_sample = True, kw_top_p = top_p,
               kw_num_return_sequences = num_return_sequences,
               kw_pad_token_id = eos_token_id env tokenizer\<rparr> w"
  shows "generate_text_body (env\<lparr>model_generate := g\<rparr>) prompt model tokenizer
           max_length temperature top_p num_return_sequences s =
         generate_text_body env prompt model tokenizer
           max_length temperature top_p num_return_sequences s"
  using assms
  by (simp add: generate_text_body_def ext_def Let_def generated_texts_other_generate
        split: prod.splits sum.splits)

lemma generate_text_body_generate:
  fixes env :: "('w, 'e, 'm, 't) env"
  assumes tok: "tokenizer_call env tokenizer prompt ''pt'' (world s) = (Inr enc, w1)"
    and to: "encoding_to env enc (model_device env model) w1 = (Inr inputs, w2)"
    and args: "args = \<lparr>arg_input_ids = input_ids inputs, kw_max_length = max_length,
                  kw_temperature = temperature, kw_do_sample = True, kw_top_p = top_p,
                  kw_num_return_sequences = num_return_sequences,
                  kw_pad_token_id = eos_token_id env tokenizer\<rparr>"
  shows "generate_text_body env prompt model tokenizer max_length temperature top_p
           num_return_sequences s =
         (case model_generate env model args w2 of
            (Inl e, w3) \<Rightarrow>
              (Inl (FrameworkError e),
               \<lparr>world = w3, calls = calls s @
                  [(Call_tokenizer prompt ''pt'', Returned),
                   (Call_to (model_device env model), Returned),
                   (Call_generate args, Raised e)]\<rparr>)
          | (Inr outputs, w3) \<Rightarrow>
              (case generated_texts env tokenizer outputs
                      \<lparr>world = w3, calls = calls s @
                         [(Call_tokenizer prompt ''pt'', Returned),
                          (Call_to (model_device env model), Returned),
                          (Call_generate args, Returned)]\<rparr> of
                 (Inl x, s4) \<Rightarrow> (Inl x, s4)
               | (Inr texts, s4) \<Rightarrow>
                   (if py_eq num_return_sequences (PyInt 1)
                    then (case texts of
                            [] \<Rightarrow> (Inl IndexError, s4)
                          | t # _ \<Rightarrow> (Inr (Single t), s4))
                    else (Inr (Sequence texts), s4))))"
proof (cases "model_generate env model args w2")
  case (Pair r w3)
  show ?thesis
  proof (cases r)
    case (Inl e)
    with Pair generate_text_body_generate_raises [OF tok to args, of e w3] show ?thesis
      by simp
  next
    case (Inr outputs)
    with Pair generate_text_body_generated [OF tok to args, of outputs w3] show ?thesis
      by simp
  qed
qed

section \<open>The shape of what \<open>generate_text\<close> returns\<close>

text \<open>
  Claim C1. With \<open>num_return_sequences\<close> left out or given as 1, whatever
  \<open>generate_text\<close> returns is a single string, not a list. It does return one when
  the calls into the library return and \<open>generate\<close> gives at least one row: the
  string is the decoding of the first row.
\<close>

theorem generate_text_one_sequence:
  fixes env :: "('w, 'e, 'm, 't) env"
  assumes one: "num_return_sequences = None \<or> num_return_sequences = Some (PyInt 1)"
  shows
    "(\<forall>r s'. generate_text env prompt model tokenizer max_length temperature top_p
               num_return_sequences s = (Inr r, s') \<longrightarrow> (\<exists>text. r = Single text)) \<and>
     (\<forall>enc w1 inputs w2 outputs w3.
        tokenizer_call env tokenizer prompt ''pt'' (world s) = (Inr enc, w1) \<and>
        encoding_to env enc (model_device env model) w1 = (Inr inputs, w2) \<and>
        model_generate env model
          \<lparr>arg_input_ids = input_ids inputs,
           kw_max_length = (case max_length of None \<Rightarrow> PyInt 100 | Some v \<Rightarrow> v),
           kw_temperature = (case temperature of None \<Rightarrow> PyFloat 0.7 | Some v \<Rightarrow> v),
           kw_do_sample = True,
           kw_top_p = (case top_p of None \<Rightarrow> PyFloat 0.9 | Some v \<Rightarrow> v),
           kw_num_return_sequences = PyInt 1,
           kw_pad_token_id = eos_token_id env tokenizer\<rparr> w2 = (Inr outputs, w3) \<and>
        outputs \<noteq> [] \<and>
        (\<forall>out w. \<exists>text w'. tokenizer_decode env tokenizer out True w = (Inr text, w')) \<longrightarrow>
        (\<exists>text s' w'.
           generate_text env prompt model tokenizer max_length temperature top_p
             num_return_sequences s = (Inr (Single text), s') \<and>
           tokenizer_decode env tokenizer (hd outputs) True w3 = (Inr text, w')))"
proof -
  let ?ml = "case max_length of None \<Rightarrow> PyInt 100 | Some v \<Rightarrow> v"
  let ?te = "case temperature of None \<Rightarrow> PyFloat 0.7 | Some v \<Rightarrow> v"
  let ?tp = "case top_p of None \<Rightarrow> PyFloat 0.9 | Some v \<Rightarrow> v"
  from one have unfold: "generate_text env prompt model tokenizer max_length temperature top_p
      num_return_sequences s =
    generate_text_body env prompt model tokenizer ?ml ?te ?tp (PyInt 1) s"
    by (auto simp: generate_text_def)
  have eq1: "py_eq (PyInt 1) (PyInt 1)" by (simp add: py_eq_def)
  have first: "\<exists>text. r = Single text"
    if run: "generate_text_body env prompt model tokenizer ?ml ?te ?tp (PyInt 1) s = (Inr r, s')"
    for r s'
  proof (cases rule: generate_text_body_run
      [where env = env and tokenizer = tokenizer and prompt = prompt and s = s
         and model = model and max_length = ?ml and temperature = ?te and top_p = ?tp
         and num_return_sequences = "PyInt 1"])
    case (tokenizer_raises e w1)
    from generate_text_body_tokenizer_raises [OF this] run show ?thesis by simp
  next
    case (to_raises enc w1 e w2)
    from generate_text_body_to_raises [OF this] run show ?thesis by simp
  next
    case (generate_raises enc w1 inputs w2 e w3)
    from generate_text_body_generate_raises [OF generate_raises(1,2) refl generate_raises(3)] run
    show ?thesis by simp
  next
    case (generated enc w1 inputs w2 outputs w3)
    from generate_text_body_generated [OF generated(1,2) refl generated(3)] run eq1
    show ?thesis by (auto split: prod.splits sum.splits list.splits)
  qed
  have second: "\<exists>text s' w'.
       generate_text_body env prompt model tokenizer ?ml ?te ?tp (PyInt 1) s
         = (Inr (Single text), s') \<and>
       tokenizer_decode env tokenizer (hd outputs) True w3 = (Inr text, w')"
    if tok: "tokenizer_call env tokenizer prompt ''pt'' (world s) = (Inr enc, w1)"
      and to: "encoding_to env enc (model_device env model) w1 = (Inr inputs, w2)"
      and gen: "model_generate env model
          \<lparr>arg_input_ids = input_ids inputs, kw_max_length = ?ml, kw_temperature = ?te,
           kw_do_sample = True, kw_top_p = ?tp, kw_num_return_sequences = PyInt 1,
           kw_pad_token_id = eos_token_id env tokenizer\<rparr> w2 = (Inr outputs, w3)"
      and nonempty: "outputs \<noteq> []"
      and total: "\<forall>out w. \<exists>text w'. tokenizer_decode env tokenizer out True w = (Inr text, w')"
    for enc w1 inputs w2 outputs w3
  proof -
    let ?s3 = "\<lparr>world = w3, calls = calls s @
                    [(Call_tokenizer prompt ''pt'', Returned),
                     (Call_to (model_device env model), Returned),
                     (Call_generate \<lparr>arg_input_ids = input_ids inputs, kw_max_length = ?ml,
                        kw_temperature = ?te, kw_do_sample = True, kw_top_p = ?tp,
                        kw_num_return_sequences = PyInt 1,
                        kw_pad_token_id = eos_token_id env tokenizer\<rparr>, Returned)]\<rparr>"
    from nonempty obtain out outs where outputs: "outputs = out # outs"
      by (cases outputs) auto
    from generated_texts_total [OF total, of outputs ?s3] obtain texts s4
      where dec: "generated_texts env tokenizer outputs ?s3 = (Inr texts, s4)"
      by blast
    from generated_texts_head [OF dec [unfolded outputs]] obtain w' rest
      where hd: "tokenizer_decode env tokenizer out True w3 = (Inr (hd texts), w')"
        and texts: "texts = hd texts # rest"
      by auto
    have "generate_text_body env prompt model tokenizer ?ml ?te ?tp (PyInt 1) s
        = (Inr (Single (hd texts)), s4)"
      using generate_text_body_generated [OF tok to refl gen] dec eq1 texts
      by (cases texts) auto
    with hd outputs show ?thesis by auto
  qed
  show ?thesis
    unfolding unfold using first second by blast
qed

theorem generate_text_one_sequence_witness:
  "\<exists>text s' w'.
     generate_text (demo_env True) ''hello'' ''m'' ''t'' None None None None start
       = (Inr (Single text), s') \<and>
     tokenizer_decode (demo_env True) ''t'' (hd [[0]]) True 1 = (Inr text, w')"
proof -
  have one: "(None :: pyval option) = None \<or> None = Some (PyInt 1)"
    by simp
  have "tokenizer_call (demo_env True) ''t'' ''hello'' ''pt'' (world start)
          = (Inr \<lparr>input_ids = [[5]]\<rparr>, 0) \<and>
        encoding_to (demo_env True) \<lparr>input_ids = [[5]]\<rparr> (model_device (demo_env True) ''m'') 0
          = (Inr \<lparr>input_ids = [[5]]\<rparr>, 0) \<and>
        model_generate (demo_env True) ''m''
          \<lparr>arg_input_ids = input_ids \<lparr>input_ids = [[5]]\<rparr>,
           kw_max_length = (case None of None \<Rightarrow> PyInt 100 | Some v \<Rightarrow> v),
           kw_temperature = (case None of None \<Rightarrow> PyFloat 0.7 | Some v \<Rightarrow> v),
           kw_do_sample = True,
           kw_top_p = (case None of None \<Rightarrow> PyFloat 0.9 | Some v \<Rightarrow> v),
           kw_num_return_sequences = PyInt 1,
           kw_pad_token_id = eos_token_id (demo_env True) ''t''\<rparr> 0 = (Inr [[0]], 1) \<and>
        [[0::int]] \<noteq> [] \<and>
        (\<forall>out w. \<exists>text w'.
           tokenizer_decode (demo_env True) ''t'' out True w = (Inr text, w'))"
    by (simp add: demo_env_def start_def)
  with generate_text_one_sequence [OF one, where env = "demo_env True" and prompt = "''hello''"
      and model = "''m''" and tokenizer = "''t''" and max_length = None
      and temperature = None and top_p = None and s = start]
  show ?thesis by blast
qed






section \<open>What \<open>generate\<close> is applied to\<close>

text \<open>
  Claim C3. The parameters left out take the values 100, 0.7, 0.9 and 1. Once the
  tokenizer and the move to the device have returned, \<open>generate\<close> is applied to the
  record \<open>args\<close> that holds the four values as they came, whatever they are, of any
  type and in any range: if \<open>generate\<close> raises there, \<open>generate_text\<close> ends with that
  exception, and if it returns rows, \<open>generate_text\<close> goes on to decode those rows.
  What \<open>generate\<close> would do with other values never matters: a \<open>g\<close> that agrees with
  it on the records holding these four values gives the same run.
\<close>

theorem generate_text_parameters_passed_on:
  fixes env :: "('w, 'e, 'm, 't) env"
  assumes tok: "tokenizer_call env tokenizer prompt ''pt'' (world s) = (Inr enc, w1)"
    and to: "encoding_to env enc (model_device env model) w1 = (Inr inputs, w2)"
    and args: "args = \<lparr>arg_input_ids = input_ids inputs,
        kw_max_length = (case max_length of None \<Rightarrow> PyInt 100 | Some v \<Rightarrow> v),
        kw_temperature = (case temperature of None \<Rightarrow> PyFloat 0.7 | Some v \<Rightarrow> v),
        kw_do_sample = True,
        kw_top_p = (case top_p of None \<Rightarrow> PyFloat 0.9 | Some v \<Rightarrow> v),
        kw_num_return_sequences = (case num_return_sequences of None \<Rightarrow> PyInt 1 | Some v \<Rightarrow> v),
        kw_pad_token_id = eos_token_id env tokenizer\<rparr>"
  shows
    "(model_generate env model args w2 = (Inl e, w3) \<longrightarrow>
        generate_text env prompt model tokenizer max_length temperature top_p
          num_return_sequences s =
          (Inl (FrameworkError e),
           \<lparr>world = w3, calls = calls s @
              [(Call_tokenizer prompt ''pt'', Returned),
               (Call_to (model_device env model), Returned),
               (Call_generate args, Raised e)]\<rparr>)) \<and>
     (model_generate env model args w2 = (Inr outputs, w3) \<longrightarrow>
        generate_text env prompt model tokenizer max_length temperature top_p
          num_return_sequences s =
          (case generated_texts env tokenizer outputs
                  \<lparr>world = w3, calls = calls s @
                     [(Call_tokenizer prompt ''pt'', Returned),
                      (Call_to (model_device env model), Returned),
                      (Call_generate args, Returned)]\<rparr> of
             (Inl x, s4) \<Rightarrow> (Inl x, s4)
           | (Inr texts, s4) \<Rightarrow>
               (if py_eq (case num_return_sequences of None \<Rightarrow> PyInt 1 | Some v \<Rightarrow> v)
                     (PyInt 1)
                then (case texts of
                        [] \<Rightarrow> (Inl IndexError, s4)
                      | t # _ \<Rightarrow> (Inr (Single t), s4))
                else (Inr (Sequence texts), s4)))) \<and>
     ((\<forall>a w. kw_max_length a = kw_max_length args \<and>
             kw_temperature a = kw_temperature args \<and>
             kw_top_p a = kw_top_p args \<and>
             kw_num_return_sequences a = kw_num_return_sequences args \<longrightarrow>
             g model a w = model_generate env model a w) \<longrightarrow>
        generate_text (env\<lparr>model_generate := g\<rparr>) prompt model tokenizer max_length
          temperature top_p num_return_sequences s =
        generate_text env prompt model tokenizer max_length temperature top_p
          num_return_sequences s)"
proof (intro conjI impI)
  assume "model_generate env model args w2 = (Inl e, w3)"
  from generate_text_body_generate_raises [OF tok to args this]
  show "generate_text env prompt model tokenizer max_length temperature top_p
          num_return_sequences s =
          (Inl (FrameworkError e),
           \<lparr>world = w3, calls = calls s @
              [(Call_tokenizer prompt ''pt'', Returned),
               (Call_to (model_device env model), Returned),
               (Call_generate args, Raised e)]\<rparr>)"
    by (simp add: generate_text_def)
next
  assume "model_generate env model args w2 = (Inr outputs, w3)"
  then show "generate_text env prompt model tokenizer max_length temperature top_p
          num_return_sequences s =
          (case generated_texts env tokenizer outputs
                  \<lparr>world = w3, calls = calls s @
                     [(Call_tokenizer prompt ''pt'', Returned),
                      (Call_to (model_device env model), Returned),
                      (Call_generate args, Returned)]\<rparr> of
             (Inl x, s4) \<Rightarrow> (Inl x, s4)
           | (Inr texts, s4) \<Rightarrow>
               (if py_eq (case num_return_sequences of None \<Rightarrow> PyInt 1 | Some v \<Rightarrow> v)
                     (PyInt 1)
                then (case texts of
                        [] \<Rightarrow> (Inl IndexError, s4)
                      | t # _ \<Rightarrow> (Inr (Single t), s4))
                else (Inr (Sequence texts), s4)))"
    using generate_text_body_generated [OF tok to args]
    by (simp add: generate_text_def)
next
  assume same: "\<forall>a w. kw_max_length a = kw_max_length args \<and>
             kw_temperature a = kw_temperature args \<and>
             kw_top_p a = kw_top_p args \<and>
             kw_num_return_sequences a = kw_num_return_sequences args \<longrightarrow>
             g model a w = model_generate env model a w"
  show "generate_text (env\<lparr>model_generate := g\<rparr>) prompt model tokenizer max_length
          temperature top_p num_return_sequences s =
        generate_text env prompt model tokenizer max_length temperature top_p
          num_return_sequences s"
    unfolding generate_text_def
    by (rule generate_text_body_other_generate) (simp add: same args)
qed

theorem generate_text_parameters_passed_on_witness:
  "generate_text (demo_env True) ''hello'' ''m'' ''t'' (Some (PyStr ''long''))
       (Some (PyInt (- 3))) None (Some (PyInt 2)) start =
     (Inr (Sequence ['''', ''a'']),
      \<lparr>world = 1, calls =
         [(Call_tokenizer ''hello'' ''pt'', Returned),
          (Call_to ''cuda:0'', Returned),
          (Call_generate
             \<lparr>arg_input_ids = [[5]], kw_max_length = PyStr ''long'',
              kw_temperature = PyInt (- 3), kw_do_sample = True, kw_top_p = PyFloat 0.9,
              kw_num_return_sequences = PyInt 2, kw_pad_token_id = Some 2\<rparr>,
           Returned),
          (Call_decode [0] True, Returned),
          (Call_decode [1] True, Returned)]\<rparr>) \<and>
   generate_text (demo_env True) ''hello'' ''m'' ''t'' (Some (PyStr ''long''))
       (Some (PyInt (- 3))) None (Some (PyFloat 2.5)) start =
     (Inl (FrameworkError ''bad count''),
      \<lparr>world = 0, calls =
         [(Call_tokenizer ''hello'' ''pt'', Returned),
          (Call_to ''cuda:0'', Returned),
          (Call_generate
             \<lparr>arg_input_ids = [[5]], kw_max_length = PyStr ''long'',
              kw_temperature = PyInt (- 3), kw_do_sample = True, kw_top_p = PyFloat 0.9,
              kw_num_return_sequences = PyFloat 2.5, kw_pad_token_id = Some 2\<rparr>,
           Raised ''bad count'')]\<rparr>) \<and>
   generate_text
       ((demo_env True)\<lparr>model_generate := generate_where
          (\<lambda>a. kw_max_length a = PyStr ''long'' \<and> kw_temperature a = PyInt (- 3) \<and>
               kw_top_p a = PyFloat 0.9 \<and> kw_num_return_sequences a = PyInt 2)\<rparr>)
       ''hello'' ''m'' ''t'' (Some (PyStr ''long'')) (Some (PyInt (- 3))) None
       (Some (PyInt 2)) start =
     generate_text (demo_env True) ''hello'' ''m'' ''t'' (Some (PyStr ''long''))
       (Some (PyInt (- 3))) None (Some (PyInt 2)) start"
proof -
  have two: "[0..<2] = [0, 1]"
    by (simp add: upt_rec)
  have tok: "tokenizer_call (demo_env True) ''t'' ''hello'' ''pt'' (world start)
      = (Inr \<lparr>input_ids = [[5]]\<rparr>, 0)"
    and to: "encoding_to (demo_env True) \<lparr>input_ids = [[5]]\<rparr>
        (model_device (demo_env True) ''m'') 0 = (Inr \<lparr>input_ids = [[5]]\<rparr>, 0)"
    by (simp_all add: demo_env_def start_def)
  note passed = generate_text_parameters_passed_on [where env = "demo_env True"
      and max_length = "Some (PyStr ''long'')" and temperature = "Some (PyInt (- 3))"
      and top_p = None, OF tok to refl]
  have returned: "generate_text (demo_env True) ''hello'' ''m'' ''t'' (Some (PyStr ''long''))
       (Some (PyInt (- 3))) None (Some (PyInt 2)) start =
     (Inr (Sequence ['''', ''a'']),
      \<lparr>world = 1, calls =
         [(Call_tokenizer ''hello'' ''pt'', Returned),
          (Call_to ''cuda:0'', Returned),
          (Call_generate
             \<lparr>arg_input_ids = [[5]], kw_max_length = PyStr ''long'',
              kw_temperature = PyInt (- 3), kw_do_sample = True, kw_top_p = PyFloat 0.9,
              kw_num_return_sequences = PyInt 2, kw_pad_token_id = Some 2\<rparr>,
           Returned),
          (Call_decode [0] True, Returned),
          (Call_decode [1] True, Returned)]\<rparr>)"
    using passed [where num_return_sequences = "Some (PyInt 2)" and outputs = "[[0], [1]]"
        and ?w3.0 = 1, THEN conjunct2, THEN conjunct1]
    by (simp add: demo_env_def start_def ext_def py_eq_def two)
  have raised: "generate_text (demo_env True) ''hello'' ''m'' ''t'' (Some (PyStr ''long''))
       (Some (PyInt (- 3))) None (Some (PyFloat 2.5)) start =
     (Inl (FrameworkError ''bad count''),
      \<lparr>world = 0, calls =
         [(Call_tokenizer ''hello'' ''pt'', Returned),
          (Call_to ''cuda:0'', Returned),
          (Call_generate
             \<lparr>arg_input_ids = [[5]], kw_max_length = PyStr ''long'',
              kw_temperature = PyInt (- 3), kw_do_sample = True, kw_top_p = PyFloat 0.9,
              kw_num_return_sequences = PyFloat 2.5, kw_pad_token_id = Some 2\<rparr>,
           Raised ''bad count'')]\<rparr>)"
    using passed [where num_return_sequences = "Some (PyFloat 2.5)" and e = "''bad count''"
        and ?w3.0 = 0, THEN conjunct1]
    by (simp add: demo_env_def start_def)
  have same: "generate_text
       ((demo_env True)\<lparr>model_generate := generate_where
          (\<lambda>a. kw_max_length a = PyStr ''long'' \<and> kw_temperature a = PyInt (- 3) \<and>
               kw_top_p a = PyFloat 0.9 \<and> kw_num_return_sequences a = PyInt 2)\<rparr>)
       ''hello'' ''m'' ''t'' (Some (PyStr ''long'')) (Some (PyInt (- 3))) None
       (Some (PyInt 2)) start =
     generate_text (demo_env True) ''hello'' ''m'' ''t'' (Some (PyStr ''long''))
       (Some (PyInt (- 3))) None (Some (PyInt 2)) start"
    using passed [where num_return_sequences = "Some (PyInt 2)" and g = "generate_where
          (\<lambda>a. kw_max_length a = PyStr ''long'' \<and> kw_temperature a = PyInt (- 3) \<and>
               kw_top_p a = PyFloat 0.9 \<and> kw_num_return_sequences a = PyInt 2)",
        THEN conjunct2, THEN conjunct2]
    by (simp add: generate_where_def)
  from returned raised same show ?thesis
    by (intro conjI)
qed

text \<open>
  Claim C5. Once the tokenizer and the move to the device have returned, the run of
  \<open>generate_text\<close> is decided by what \<open>generate\<close> does with a record whose
  \<open>pad_token_id\<close> is the tokenizer's \<open>eos_token_id\<close>. What it would do with another
  \<open>pad_token_id\<close> never matters: a \<open>g\<close> that agrees with it on the records padded
  with \<open>eos_token_id\<close> gives the same run.
\<close>

theorem generate_text_pads_with_eos:
  fixes env :: "('w, 'e, 'm, 't) env"
  assumes tok: "tokenizer_call env tokenizer prompt ''pt'' (world s) = (Inr enc, w1)"
    and to: "encoding_to env enc (model_device env model) w1 = (Inr inputs, w2)"
  shows
    "(let args = \<lparr>arg_input_ids = input_ids inputs,
          kw_max_length = (case max_length of None \<Rightarrow> PyInt 100 | Some v \<Rightarrow> v),
          kw_temperature = (case temperature of None \<Rightarrow> PyFloat 0.7 | Some v \<Rightarrow> v),
          kw_do_sample = True,
          kw_top_p = (case top_p of None \<Rightarrow> PyFloat 0.9 | Some v \<Rightarrow> v),
          kw_num_return_sequences =
            (case num_return_sequences of None \<Rightarrow> PyInt 1 | Some v \<Rightarrow> v),
          kw_pad_token_id = eos_token_id env tokenizer\<rparr>
      in generate_text env prompt model tokenizer max_length temperature top_p
           num_return_sequences s =
         (case model_generate env model args w2 of
            (Inl e, w3) \<Rightarrow>
              (Inl (FrameworkError e),
               \<lparr>world = w3, calls = calls s @
                  [(Call_tokenizer prompt ''pt'', Returned),
                   (Call_to (model_device env model), Returned),
                   (Call_generate args, Raised e)]\<rparr>)
          | (Inr outputs, w3) \<Rightarrow>
              (case generated_texts env tokenizer outputs
                      \<lparr>world = w3, calls = calls s @
                         [(Call_tokenizer prompt ''pt'', Returned),
                          (Call_to (model_device env model), Returned),
                          (Call_generate args, Returned)]\<rparr> of
                 (Inl x, s4) \<Rightarrow> (Inl x, s4)
               | (Inr texts, s4) \<Rightarrow>
                   (if py_eq (case num_return_sequences of None \<Rightarrow> PyInt 1 | Some v \<Rightarrow> v)
                         (PyInt 1)
                    then (case texts of
                            [] \<Rightarrow> (Inl IndexError, s4)
                          | t # _ \<Rightarrow> (Inr (Single t), s4))
                    else (Inr (Sequence texts), s4))))) \<and>
     ((\<forall>a w. kw_pad_token_id a = eos_token_id env tokenizer \<longrightarrow>
             g model a w = model_generate env model a w) \<longrightarrow>
        generate_text (env\<lparr>model_generate := g\<rparr>) prompt model tokenizer max_length
          temperature top_p num_return_sequences s =
        generate_text env prompt model tokenizer max_length temperature top_p
          num_return_sequences s)"
proof (intro conjI impI)
  show "let args = \<lparr>arg_input_ids = input_ids inputs,
          kw_max_length = (case max_length of None \<Rightarrow> PyInt 100 | Some v \<Rightarrow> v),
          kw_temperature = (case temperature of None \<Rightarrow> PyFloat 0.7 | Some v \<Rightarrow> v),
          kw_do_sample = True,
          kw_top_p = (case top_p of None \<Rightarrow> PyFloat 0.9 | Some v \<Rightarrow> v),
          kw_num_return_sequences =
            (case num_return_sequences of None \<Rightarrow> PyInt 1 | Some v \<Rightarrow> v),
          kw_pad_token_id = eos_token_id env tokenizer\<rparr>
      in generate_text env prompt model tokenizer max_length temperature top_p
           num_return_sequences s =
         (case model_generate env model args w2 of
            (Inl e, w3) \<Rightarrow>
              (Inl (FrameworkError e),
               \<lparr>world = w3, calls = calls s @
                  [(Call_tokenizer prompt ''pt'', Returned),
                   (Call_to (model_device env model), Returned),
                   (Call_generate args, Raised e)]\<rparr>)
          | (Inr outputs, w3) \<Rightarrow>
              (case generated_texts env tokenizer outputs
                      \<lparr>world = w3, calls = calls s @
                         [(Call_tokenizer prompt ''pt'', Returned),
                          (Call_to (model_device env model), Returned),
                          (Call_generate args, Returned)]\<rparr> of
                 (Inl x, s4) \<Rightarrow> (Inl x, s4)
               | (Inr texts, s4) \<Rightarrow>
                   (if py_eq (case num_return_sequences of None \<Rightarrow> PyInt 1 | Some v \<Rightarrow> v)
                         (PyInt 1)
                    then (case texts of
                            [] \<Rightarrow> (Inl IndexError, s4)
                          | t # _ \<Rightarrow> (Inr (Single t), s4))
                    else (Inr (Sequence texts), s4))))"
    unfolding Let_def generate_text_def
    by (rule generate_text_body_generate [OF tok to refl])
next
  assume same: "\<forall>a w. kw_pad_token_id a = eos_token_id env tokenizer \<longrightarrow>
             g model a w = model_generate env model a w"
  show "generate_text (env\<lparr>model_generate := g\<rparr>) prompt model tokenizer max_length
          temperature top_p num_return_sequences s =
        generate_text env prompt model tokenizer max_length temperature top_p
          num_return_sequences s"
    unfolding generate_text_def
    by (rule generate_text_body_other_generate) (simp add: same)
qed

theorem generate_text_pads_with_eos_witness:
  "eos_token_id (demo_env True) ''t'' = Some 2 \<and>
   generate_text (demo_env True) ''hello'' ''m'' ''t'' None None None None start =
     (Inr (Single ''''),
      \<lparr>world = 1, calls =
         [(Call_tokenizer ''hello'' ''pt'', Returned),
          (Call_to ''cuda:0'', Returned),
          (Call_generate
             \<lparr>arg_input_ids = [[5]], kw_max_length = PyInt 100,
              kw_temperature = PyFloat 0.7, kw_do_sample = True, kw_top_p = PyFloat 0.9,
              kw_num_return_sequences = PyInt 1, kw_pad_token_id = Some 2\<rparr>,
           Returned),
          (Call_decode [0] True, Returned)]\<rparr>) \<and>
   generate_text
       ((demo_env True)\<lparr>model_generate :=
          generate_where (\<lambda>a. kw_pad_token_id a = Some 2)\<rparr>)
       ''hello'' ''m'' ''t'' None None None None start =
     generate_text (demo_env True) ''hello'' ''m'' ''t'' None None None None start"
proof -
  have one: "[0..<1] = [0]"
    by (simp add: upt_rec)
  have eos: "eos_token_id (demo_env True) ''t'' = Some 2"
    by (simp add: demo_env_def)
  have tok: "tokenizer_call (demo_env True) ''t'' ''hello'' ''pt'' (world start)
      = (Inr \<lparr>input_ids = [[5]]\<rparr>, 0)"
    and to: "encoding_to (demo_env True) \<lparr>input_ids = [[5]]\<rparr>
        (model_device (demo_env True) ''m'') 0 = (Inr \<lparr>input_ids = [[5]]\<rparr>, 0)"
    by (simp_all add: demo_env_def start_def)
  note padded = generate_text_pads_with_eos [where env = "demo_env True"
      and max_length = None and temperature = None and top_p = None
      and num_return_sequences = None, OF tok to]
  have run: "generate_text (demo_env True) ''hello'' ''m'' ''t'' None None None None start =
     (Inr (Single ''''),
      \<lparr>world = 1, calls =
         [(Call_tokenizer ''hello'' ''pt'', Returned),
          (Call_to ''cuda:0'', Returned),
          (Call_generate
             \<lparr>arg_input_ids = [[5]], kw_max_length = PyInt 100,
              kw_temperature = PyFloat 0.7, kw_do_sample = True, kw_top_p = PyFloat 0.9,
              kw_num_return_sequences = PyInt 1, kw_pad_token_id = Some 2\<rparr>,
           Returned),
          (Call_decode [0] True, Returned)]\<rparr>)"
    using padded [THEN conjunct1]
    by (simp add: Let_def demo_env_def start_def ext_def py_eq_def one)
  have same: "generate_text
       ((demo_env True)\<lparr>model_generate :=
          generate_where (\<lambda>a. kw_pad_token_id a = Some 2)\<rparr>)
       ''hello'' ''m'' ''t'' None None None None start =
     generate_text (demo_env True) ''hello'' ''m'' ''t'' None None None None start"
    using padded [where g = "generate_where (\<lambda>a. kw_pad_token_id a = Some 2)",
        THEN conjunct2] eos
    by (simp add: generate_where_def)
  from eos run same show ?thesis
    by (intro conjI)
qed

text \<open>
  Claim C8. Whatever the temperature, \<open>generate\<close> is applied to a record with
  \<open>do_sample=True\<close> and that temperature: if it raises there, \<open>generate_text\<close> ends
  with that exception, and if it returns rows, \<open>generate_text\<close> goes on to decode
  them. What \<open>generate\<close> would do with \<open>do_sample=False\<close> never matters: a \<open>greedy\<close>
  that agrees with it wherever \<open>do_sample\<close> is true gives the same run.
\<close>

theorem generate_text_always_samples:
  fixes env :: "('w, 'e, 'm, 't) env"
  assumes tok: "tokenizer_call env tokenizer prompt ''pt'' (world s) = (Inr enc, w1)"
    and to: "encoding_to env enc (model_device env model) w1 = (Inr inputs, w2)"
    and sampling: "sampling = \<lparr>arg_input_ids = input_ids inputs,
        kw_max_length = (case max_length of None \<Rightarrow> PyInt 100 | Some v \<Rightarrow> v),
        kw_temperature = (case temperature of None \<Rightarrow> PyFloat 0.7 | Some v \<Rightarrow> v),
        kw_do_sample = True,
        kw_top_p = (case top_p of None \<Rightarrow> PyFloat 0.9 | Some v \<Rightarrow> v),
        kw_num_return_sequences = (case num_return_sequences of None \<Rightarrow> PyInt 1 | Some v \<Rightarrow> v),
        kw_pad_token_id = eos_token_id env tokenizer\<rparr>"
  shows
    "(model_generate env model sampling w2 = (Inl e, w3) \<longrightarrow>
        generate_text env prompt model tokenizer max_length temperature top_p
          num_return_sequences s =
          (Inl (FrameworkError e),
           \<lparr>world = w3, calls = calls s @
              [(Call_tokenizer prompt ''pt'', Returned),
               (Call_to (model_device env model), Returned),
               (Call_generate sampling, Raised e)]\<rparr>)) \<and>
     (model_generate env model sampling w2 = (Inr outputs, w3) \<longrightarrow>
        generate_text env prompt model tokenizer max_length temperature top_p
          num_return_sequences s =
          (case generated_texts env tokenizer outputs
                  \<lparr>world = w3, calls = calls s @
                     [(Call_tokenizer prompt ''pt'', Returned),
                      (Call_to (model_device env model), Returned),
                      (Call_generate sampling, Returned)]\<rparr> of
             (Inl x, s4) \<Rightarrow> (Inl x, s4)
           | (Inr texts, s4) \<Rightarrow>
               (if py_eq (case num_return_sequences of None \<Rightarrow> PyInt 1 | Some v \<Rightarrow> v)
                     (PyInt 1)
                then (case texts of
                        [] \<Rightarrow> (Inl IndexError, s4)
                      | t # _ \<Rightarrow> (Inr (Single t), s4))
                else (Inr (Sequence texts), s4)))) \<and>
     ((\<forall>a w. kw_do_sample a = True \<longrightarrow> greedy model a w = model_generate env model a w) \<longrightarrow>
        generate_text (env\<lparr>model_generate := greedy\<rparr>) prompt model tokenizer max_length
          temperature top_p num_return_sequences s =
        generate_text env prompt model tokenizer max_length temperature top_p
          num_return_sequences s)"
proof (intro conjI impI)
  assume "model_generate env model sampling w2 = (Inl e, w3)"
  from generate_text_body_generate_raises [OF tok to sampling this]
  show "generate_text env prompt model tokenizer max_length temperature top_p
          num_return_sequences s =
          (Inl (FrameworkError e),
           \<lparr>world = w3, calls = calls s @
              [(Call_tokenizer prompt ''pt'', Returned),
               (Call_to (model_device env model), Returned),
               (Call_generate sampling, Raised e)]\<rparr>)"
    by (simp add: generate_text_def)
next
  assume "model_generate env model sampling w2 = (Inr outputs, w3)"
  then show "generate_text env prompt model tokenizer max_length temperature top_p
          num_return_sequences s =
          (case generated_texts env tokenizer outputs
                  \<lparr>world = w3, calls = calls s @
                     [(Call_tokenizer prompt ''pt'', Returned),
                      (Call_to (model_device env model), Returned),
                      (Call_generate sampling, Returned)]\<rparr> of
             (Inl x, s4) \<Rightarrow> (Inl x, s4)
           | (Inr texts, s4) \<Rightarrow>
               (if py_eq (case num_return_sequences of None \<Rightarrow> PyInt 1 | Some v \<Rightarrow> v)
                     (PyInt 1)
                then (case texts of
                        [] \<Rightarrow> (Inl IndexError, s4)
                      | t # _ \<Rightarrow> (Inr (Single t), s4))
                else (Inr (Sequence texts), s4)))"
    using generate_text_body_generated [OF tok to sampling]
    by (simp add: generate_text_def)
next
  assume same: "\<forall>a w. kw_do_sample a = True \<longrightarrow>
      greedy model a w = model_generate env model a w"
  show "generate_text (env\<lparr>model_generate := greedy\<rparr>) prompt model tokenizer max_length
          temperature top_p num_return_sequences s =
        generate_text env prompt model tokenizer max_length temperature top_p
          num_return_sequences s"
    unfolding generate_text_def
    by (rule generate_text_body_other_generate) (simp add: same)
qed

theorem generate_text_always_samples_witness:
  "generate_text (demo_env True) ''hello'' ''m'' ''t'' None (Some (PyFloat 0)) None None start =
     (Inr (Single ''''),
      \<lparr>world = 1, calls =
         [(Call_tokenizer ''hello'' ''pt'', Returned),
          (Call_to ''cuda:0'', Returned),
          (Call_generate
             \<lparr>arg_input_ids = [[5]], kw_max_length = PyInt 100,
              kw_temperature = PyFloat 0, kw_do_sample = True, kw_top_p = PyFloat 0.9,
              kw_num_return_sequences = PyInt 1, kw_pad_token_id = Some 2\<rparr>,
           Returned),
          (Call_decode [0] True, Returned)]\<rparr>) \<and>
   generate_text (demo_env True) ''hello'' ''m'' ''t'' None (Some (PyFloat 0)) None
       (Some (PyInt (- 1))) start =
     (Inl (FrameworkError ''bad count''),
      \<lparr>world = 0, calls =
         [(Call_tokenizer ''hello'' ''pt'', Returned),
          (Call_to ''cuda:0'', Returned),
          (Call_generate
             \<lparr>arg_input_ids = [[5]], kw_max_length = PyInt 100,
              kw_temperature = PyFloat 0, kw_do_sample = True, kw_top_p = PyFloat 0.9,
              kw_num_return_sequences = PyInt (- 1), kw_pad_token_id = Some 2\<rparr>,
           Raised ''bad count'')]\<rparr>) \<and>
   generate_text
       ((demo_env True)\<lparr>model_generate := generate_where (\<lambda>a. kw_do_sample a)\<rparr>)
       ''hello'' ''m'' ''t'' None (Some (PyFloat 0)) None None start =
     generate_text (demo_env True) ''hello'' ''m'' ''t'' None (Some (PyFloat 0)) None None start"
proof -
  have one: "[0..<1] = [0]"
    by (simp add: upt_rec)
  have tok: "tokenizer_call (demo_env True) ''t'' ''hello'' ''pt'' (world start)
      = (Inr \<lparr>input_ids = [[5]]\<rparr>, 0)"
    and to: "encoding_to (demo_env True) \<lparr>input_ids = [[5]]\<rparr>
        (model_device (demo_env True) ''m'') 0 = (Inr \<lparr>input_ids = [[5]]\<rparr>, 0)"
    by (simp_all add: demo_env_def start_def)
  note sampled = generate_text_always_samples [where env = "demo_env True"
      and max_length = None and temperature = "Some (PyFloat 0)" and top_p = None,
      OF tok to refl]
  have returned: "generate_text (demo_env True) ''hello'' ''m'' ''t'' None (Some (PyFloat 0))
       None None start =
     (Inr (Single ''''),
      \<lparr>world = 1, calls =
         [(Call_tokenizer ''hello'' ''pt'', Returned),
          (Call_to ''cuda:0'', Returned),
          (Call_generate
             \<lparr>arg_input_ids = [[5]], kw_max_length = PyInt 100,
              kw_temperature = PyFloat 0, kw_do_sample = True, kw_top_p = PyFloat 0.9,
              kw_num_return_sequences = PyInt 1, kw_pad_token_id = Some 2\<rparr>,
           Returned),
          (Call_decode [0] True, Returned)]\<rparr>)"
    using sampled [where num_return_sequences = None and outputs = "[[0]]" and ?w3.0 = 1,
        THEN conjunct2, THEN conjunct1]
    by (simp add: demo_env_def start_def ext_def py_eq_def one)
  have raised: "generate_text (demo_env True) ''hello'' ''m'' ''t'' None (Some (PyFloat 0)) None
       (Some (PyInt (- 1))) start =
     (Inl (FrameworkError ''bad count''),
      \<lparr>world = 0, calls =
         [(Call_tokenizer ''hello'' ''pt'', Returned),
          (Call_to ''cuda:0'', Returned),
          (Call_generate
             \<lparr>arg_input_ids = [[5]], kw_max_length = PyInt 100,
              kw_temperature = PyFloat 0, kw_do_sample = True, kw_top_p = PyFloat 0.9,
              kw_num_return_sequences = PyInt (- 1), kw_pad_token_id = Some 2\<rparr>,
           Raised ''bad count'')]\<rparr>)"
    using sampled [where num_return_sequences = "Some (PyInt (- 1))" and e = "''bad count''"
        and ?w3.0 = 0, THEN conjunct1]
    by (simp add: demo_env_def start_def)
  have same: "generate_text
       ((demo_env True)\<lparr>model_generate := generate_where (\<lambda>a. kw_do_sample a)\<rparr>)
       ''hello'' ''m'' ''t'' None (Some (PyFloat 0)) None None start =
     generate_text (demo_env True) ''hello'' ''m'' ''t'' None (Some (PyFloat 0)) None None start"
    using sampled [where num_return_sequences = None
        and greedy = "generate_where (\<lambda>a. kw_do_sample a)", THEN conjunct2, THEN conjunct2]
    by (simp add: generate_where_def)
  from returned raised same show ?thesis
    by (intro conjI)
qed

section \<open>The runs of \<open>load_model\<close>, and exceptions of the library\<close>

lemma load_model_body_tokenizer_raises:
  assumes "AutoTokenizer_from_pretrained env model_name (world s) = (Inl e, w1)"
  shows "load_model_body env model_name s =
         (Inl (FrameworkError e),
          \<lparr>world = w1, calls = calls s @
             [(Call_AutoTokenizer_from_pretrained model_name, Raised e)]\<rparr>)"
  using assms by (simp add: load_model_body_def ext_Inl)

lemma load_model_body_model_raises:
  assumes "AutoTokenizer_from_pretrained env model_name (world s) = (Inr tokenizer, w1)"
    and "args = \<lparr>arg_model_name = model_name, kw_torch_dtype = float16,
                  kw_device_map = ''auto'', kw_trust_remote_code = True\<rparr>"
    and "AutoModelForCausalLM_from_pretrained env args w1 = (Inl e, w2)"
  shows "load_model_body env model_name s =
         (Inl (FrameworkError e),
          \<lparr>world = w2, calls = calls s @
             [(Call_AutoTokenizer_from_pretrained model_name, Returned),
              (Call_AutoModelForCausalLM_from_pretrained args, Raised e)]\<rparr>)"
  using assms by (simp add: load_model_body_def ext_Inl ext_Inr)

lemma load_model_body_loaded:
  assumes "AutoTokenizer_from_pretrained env model_name (world s) = (Inr tokenizer, w1)"
    and "args = \<lparr>arg_model_name = model_name, kw_torch_dtype = float16,
                  kw_device_map = ''auto'', kw_trust_remote_code = True\<rparr>"
    and "AutoModelForCausalLM_from_pretrained env args w1 = (Inr model, w2)"
  shows "load_model_body env model_name s =
         (Inr (model, tokenizer),
          \<lparr>world = w2, calls = calls s @
             [(Call_AutoTokenizer_from_pretrained model_name, Returned),
              (Call_AutoModelForCausalLM_from_pretrained args, Returned)]\<rparr>)"
  using assms by (simp add: load_model_body_def ext_Inl ext_Inr)

lemma load_model_body_run:
  fixes env :: "('w, 'e, 'm, 't) env"
  obtains (tokenizer_raises) e w1
      where "AutoTokenizer_from_pretrained env model_name (world s) = (Inl e, w1)"
    | (model_raises) tokenizer w1 e w2
      where "AutoTokenizer_from_pretrained env model_name (world s) = (Inr tokenizer, w1)"
        and "AutoModelForCausalLM_from_pretrained env
               \<lparr>arg_model_name = model_name, kw_torch_dtype = float16,
                kw_device_map = ''auto'', kw_trust_remote_code = True\<rparr> w1 = (Inl e, w2)"
    | (loaded) tokenizer w1 model w2
      where "AutoTokenizer_from_pretrained env model_name (world s) = (Inr tokenizer, w1)"
        and "AutoModelForCausalLM_from_pretrained env
               \<lparr>arg_model_name = model_name, kw_torch_dtype = float16,
                kw_device_map = ''auto'', kw_trust_remote_code = True\<rparr> w1 = (Inr model, w2)"
proof (cases "AutoTokenizer_from_pretrained env model_name (world s)")
  case tok: (Pair r1 w1)
  show ?thesis
  proof (cases r1)
    case (Inl e)
    with tok tokenizer_raises show ?thesis by simp
  next
    case tokenizer: (Inr tokenizer)
    let ?args = "\<lparr>arg_model_name = model_name, kw_torch_dtype = float16,
                kw_device_map = ''auto'', kw_trust_remote_code = True\<rparr>"
    show ?thesis
    proof (cases "AutoModelForCausalLM_from_pretrained env ?args w1")
      case mdl: (Pair r2 w2)
      show ?thesis
      proof (cases r2)
        case (Inl e)
        with tok tokenizer mdl model_raises show ?thesis by simp
      next
        case (Inr model)
        with tok tokenizer mdl loaded show ?thesis by simp
      qed
    qed
  qed
qed

text \<open>
  Claim C6. \<open>load_model\<close> without an argument loads
  \<open>deepseek-ai/DeepSeek-R1-Distill-Llama-70B\<close>. When both \<open>from_pretrained\<close> calls
  return, it returns the pair of the model and the tokenizer, and whatever pair it
  returns was loaded from the one name it was given.
\<close>

theorem load_model_returns_model_and_tokenizer:
  fixes env :: "('w, 'e, 'm, 't) env"
  shows
    "load_model env None s =
       load_model env (Some ''deepseek-ai/DeepSeek-R1-Distill-Llama-70B'') s \<and>
     (\<forall>tokenizer w1 model w2.
        AutoTokenizer_from_pretrained env name (world s) = (Inr tokenizer, w1) \<and>
        AutoModelForCausalLM_from_pretrained env
          \<lparr>arg_model_name = name, kw_torch_dtype = float16,
           kw_device_map = ''auto'', kw_trust_remote_code = True\<rparr> w1 = (Inr model, w2) \<longrightarrow>
        load_model env (Some name) s =
          (Inr (model, tokenizer),
           \<lparr>world = w2, calls = calls s @
              [(Call_AutoTokenizer_from_pretrained name, Returned),
               (Call_AutoModelForCausalLM_from_pretrained
                  \<lparr>arg_model_name = name, kw_torch_dtype = float16,
                   kw_device_map = ''auto'', kw_trust_remote_code = True\<rparr>, Returned)]\<rparr>)) \<and>
     (\<forall>model tokenizer s'.
        load_model env (Some name) s = (Inr (model, tokenizer), s') \<longrightarrow>
        (\<exists>w1. AutoTokenizer_from_pretrained env name (world s) = (Inr tokenizer, w1) \<and>
              AutoModelForCausalLM_from_pretrained env
                \<lparr>arg_model_name = name, kw_torch_dtype = float16,
                 kw_device_map = ''auto'', kw_trust_remote_code = True\<rparr> w1
                = (Inr model, world s')))"
proof (intro conjI allI impI)
  show "load_model env None s =
       load_model env (Some ''deepseek-ai/DeepSeek-R1-Distill-Llama-70B'') s"
    by (simp add: load_model_def)
next
  fix tokenizer w1 model w2
  assume "AutoTokenizer_from_pretrained env name (world s) = (Inr tokenizer, w1) \<and>
        AutoModelForCausalLM_from_pretrained env
          \<lparr>arg_model_name = name, kw_torch_dtype = float16,
           kw_device_map = ''auto'', kw_trust_remote_code = True\<rparr> w1 = (Inr model, w2)"
  then show "load_model env (Some name) s =
          (Inr (model, tokenizer),
           \<lparr>world = w2, calls = calls s @
              [(Call_AutoTokenizer_from_pretrained name, Returned),
               (Call_AutoModelForCausalLM_from_pretrained
                  \<lparr>arg_model_name = name, kw_torch_dtype = float16,
                   kw_device_map = ''auto'', kw_trust_remote_code = True\<rparr>, Returned)]\<rparr>)"
    using load_model_body_loaded [of env name s tokenizer w1 _ model w2]
    by (simp add: load_model_def)
next
  fix model tokenizer s'
  assume "load_model env (Some name) s = (Inr (model, tokenizer), s')"
  then have run: "load_model_body env name s = (Inr (model, tokenizer), s')"
    by (simp add: load_model_def)
  show "\<exists>w1. AutoTokenizer_from_pretrained env name (world s) = (Inr tokenizer, w1) \<and>
              AutoModelForCausalLM_from_pretrained env
                \<lparr>arg_model_name = name, kw_torch_dtype = float16,
                 kw_device_map = ''auto'', kw_trust_remote_code = True\<rparr> w1
                = (Inr model, world s')"
  proof (cases rule: load_model_body_run [where env = env and model_name = name and s = s])
    case (tokenizer_raises e w1)
    from load_model_body_tokenizer_raises [OF this] run show ?thesis by simp
  next
    case (model_raises tokenizer w1 e w2)
    from load_model_body_model_raises [OF model_raises(1) refl model_raises(2)] run
    show ?thesis by simp
  next
    case (loaded tok w1 mdl w2)
    from load_model_body_loaded [OF loaded(1) refl loaded(2)] run loaded
    show ?thesis by auto
  qed
qed

theorem load_model_returns_model_and_tokenizer_witness:
  "load_model (demo_env True) None start =
     (Inr (''deepseek-ai/DeepSeek-R1-Distill-Llama-70B'',
           ''deepseek-ai/DeepSeek-R1-Distill-Llama-70B''),
      \<lparr>world = 0, calls = calls start @
         [(Call_AutoTokenizer_from_pretrained ''deepseek-ai/DeepSeek-R1-Distill-Llama-70B'',
           Returned),
          (Call_AutoModelForCausalLM_from_pretrained
             \<lparr>arg_model_name = ''deepseek-ai/DeepSeek-R1-Distill-Llama-70B'',
              kw_torch_dtype = float16, kw_device_map = ''auto'',
              kw_trust_remote_code = True\<rparr>, Returned)]\<rparr>)"
proof -
  let ?name = "''deepseek-ai/DeepSeek-R1-Distill-Llama-70B''"
  have "AutoTokenizer_from_pretrained (demo_env True) ?name (world start) = (Inr ?name, 0) \<and>
        AutoModelForCausalLM_from_pretrained (demo_env True)
          \<lparr>arg_model_name = ?name, kw_torch_dtype = float16,
           kw_device_map = ''auto'', kw_trust_remote_code = True\<rparr> 0 = (Inr ?name, 0)"
    by (simp add: demo_env_def start_def)
  note hyps = this
  note inst = load_model_returns_model_and_tokenizer
    [where env = "demo_env True" and s = start and name = ?name]
  have "load_model (demo_env True) None start = load_model (demo_env True) (Some ?name) start"
    using inst [THEN conjunct1] .
  also have "\<dots> = (Inr (?name, ?name),
      \<lparr>world = 0, calls = calls start @
         [(Call_AutoTokenizer_from_pretrained ?name, Returned),
          (Call_AutoModelForCausalLM_from_pretrained
             \<lparr>arg_model_name = ?name, kw_torch_dtype = float16, kw_device_map = ''auto'',
              kw_trust_remote_code = True\<rparr>, Returned)]\<rparr>)"
    using inst [THEN conjunct2, THEN conjunct1, rule_format, OF hyps] .
  finally show ?thesis .
qed

text \<open>
  Claim C7. Whenever a routine of the library that \<open>load_model\<close> or \<open>generate_text\<close>
  calls raises an exception, the calls before it having returned, the function ends
  with that same exception, in the world the raising call left, with that call the
  last one recorded. This holds of each of the six calls: the two \<open>from_pretrained\<close>,
  the tokenizer, \<open>.to\<close>, \<open>generate\<close>, and \<open>decode\<close> at any row, the rows before it
  decoded. Nothing is caught, translated or tried again.
\<close>

theorem library_exceptions_propagate:
  fixes env :: "('w, 'e, 'm, 't) env"
  assumes name: "name = (case model_name of
                           None \<Rightarrow> ''deepseek-ai/DeepSeek-R1-Distill-Llama-70B'' | Some n \<Rightarrow> n)"
    and largs: "largs = \<lparr>arg_model_name = name, kw_torch_dtype = float16,
                         kw_device_map = ''auto'', kw_trust_remote_code = True\<rparr>"
    and args: "args = \<lparr>arg_input_ids = input_ids inputs,
        kw_max_length = (case max_length of None \<Rightarrow> PyInt 100 | Some v \<Rightarrow> v),
        kw_temperature = (case temperature of None \<Rightarrow> PyFloat 0.7 | Some v \<Rightarrow> v),
        kw_do_sample = True,
        kw_top_p = (case top_p of None \<Rightarrow> PyFloat 0.9 | Some v \<Rightarrow> v),
        kw_num_return_sequences = (case num_return_sequences of None \<Rightarrow> PyInt 1 | Some v \<Rightarrow> v),
        kw_pad_token_id = eos_token_id env tokenizer\<rparr>"
  shows
    "(AutoTokenizer_from_pretrained env name (world s) = (Inl e, v1) \<longrightarrow>
        load_model env model_name s =
          (Inl (FrameworkError e),
           \<lparr>world = v1, calls = calls s @
              [(Call_AutoTokenizer_from_pretrained name, Raised e)]\<rparr>)) \<and>
     (AutoTokenizer_from_pretrained env name (world s) = (Inr tok, v1) \<and>
      AutoModelForCausalLM_from_pretrained env largs v1 = (Inl e, v2) \<longrightarrow>
        load_model env model_name s =
          (Inl (FrameworkError e),
           \<lparr>world = v2, calls = calls s @
              [(Call_AutoTokenizer_from_pretrained name, Returned),
               (Call_AutoModelForCausalLM_from_pretrained largs, Raised e)]\<rparr>)) \<and>
     (tokenizer_call env tokenizer prompt ''pt'' (world s) = (Inl e, w1) \<longrightarrow>
        generate_text env prompt model tokenizer max_length temperature top_p
          num_return_sequences s =
          (Inl (FrameworkError e),
           \<lparr>world = w1, calls = calls s @ [(Call_tokenizer prompt ''pt'', Raised e)]\<rparr>)) \<and>
     (tokenizer_call env tokenizer prompt ''pt'' (world s) = (Inr enc, w1) \<and>
      encoding_to env enc (model_device env model) w1 = (Inl e, w2) \<longrightarrow>
        generate_text env prompt model tokenizer max_length temperature top_p
          num_return_sequences s =
          (Inl (FrameworkError e),
           \<lparr>world = w2, calls = calls s @
              [(Call_tokenizer prompt ''pt'', Returned),
               (Call_to (model_device env model), Raised e)]\<rparr>)) \<and>
     (tokenizer_call env tokenizer prompt ''pt'' (world s) = (Inr enc, w1) \<and>
      encoding_to env enc (model_device env model) w1 = (Inr inputs, w2) \<and>
      model_generate env model args w2 = (Inl e, w3) \<longrightarrow>
        generate_text env prompt model tokenizer max_length temperature top_p
          num_return_sequences s =
          (Inl (FrameworkError e),
           \<lparr>world = w3, calls = calls s @
              [(Call_tokenizer prompt ''pt'', Returned),
               (Call_to (model_device env model), Returned),
               (Call_generate args, Raised e)]\<rparr>)) \<and>
     (tokenizer_call env tokenizer prompt ''pt'' (world s) = (Inr enc, w1) \<and>
      encoding_to env enc (model_device env model) w1 = (Inr inputs, w2) \<and>
      model_generate env model args w2 = (Inr (pre @ row # post), w3) \<and>
      generated_texts env tokenizer pre
        \<lparr>world = w3, calls = calls s @
           [(Call_tokenizer prompt ''pt'', Returned),
            (Call_to (model_device env model), Returned),
            (Call_generate args, Returned)]\<rparr> = (Inr texts, s4) \<and>
      tokenizer_decode env tokenizer row True (world s4) = (Inl e, w5) \<longrightarrow>
        generate_text env prompt model tokenizer max_length temperature top_p
          num_return_sequences s =
          (Inl (FrameworkError e),
           \<lparr>world = w5, calls = calls s4 @ [(Call_decode row True, Raised e)]\<rparr>))"
proof (intro conjI impI)
  assume "AutoTokenizer_from_pretrained env name (world s) = (Inl e, v1)"
  from load_model_body_tokenizer_raises [OF this] name
  show "load_model env model_name s =
          (Inl (FrameworkError e),
           \<lparr>world = v1, calls = calls s @
              [(Call_AutoTokenizer_from_pretrained name, Raised e)]\<rparr>)"
    by (simp add: load_model_def)
next
  assume "AutoTokenizer_from_pretrained env name (world s) = (Inr tok, v1) \<and>
      AutoModelForCausalLM_from_pretrained env largs v1 = (Inl e, v2)"
  then have "load_model_body env name s =
          (Inl (FrameworkError e),
           \<lparr>world = v2, calls = calls s @
              [(Call_AutoTokenizer_from_pretrained name, Returned),
               (Call_AutoModelForCausalLM_from_pretrained largs, Raised e)]\<rparr>)"
    using load_model_body_model_raises [of env name s tok v1 largs e v2] largs by simp
  with name show "load_model env model_name s =
          (Inl (FrameworkError e),
           \<lparr>world = v2, calls = calls s @
              [(Call_AutoTokenizer_from_pretrained name, Returned),
               (Call_AutoModelForCausalLM_from_pretrained largs, Raised e)]\<rparr>)"
    by (simp add: load_model_def)
next
  assume "tokenizer_call env tokenizer prompt ''pt'' (world s) = (Inl e, w1)"
  from generate_text_body_tokenizer_raises [OF this]
  show "generate_text env prompt model tokenizer max_length temperature top_p
          num_return_sequences s =
          (Inl (FrameworkError e),
           \<lparr>world = w1, calls = calls s @ [(Call_tokenizer prompt ''pt'', Raised e)]\<rparr>)"
    by (simp add: generate_text_def)
next
  assume "tokenizer_call env tokenizer prompt ''pt'' (world s) = (Inr enc, w1) \<and>
      encoding_to env enc (model_device env model) w1 = (Inl e, w2)"
  then have "tokenizer_call env tokenizer prompt ''pt'' (world s) = (Inr enc, w1)"
    and "encoding_to env enc (model_device env model) w1 = (Inl e, w2)"
    by simp_all
  from generate_text_body_to_raises [OF this]
  show "generate_text env prompt model tokenizer max_length temperature top_p
          num_return_sequences s =
          (Inl (FrameworkError e),
           \<lparr>world = w2, calls = calls s @
              [(Call_tokenizer prompt ''pt'', Returned),
               (Call_to (model_device env model), Raised e)]\<rparr>)"
    by (simp add: generate_text_def)
next
  assume "tokenizer_call env tokenizer prompt ''pt'' (world s) = (Inr enc, w1) \<and>
      encoding_to env enc (model_device env model) w1 = (Inr inputs, w2) \<and>
      model_generate env model args w2 = (Inl e, w3)"
  then have "tokenizer_call env tokenizer prompt ''pt'' (world s) = (Inr enc, w1)"
    and "encoding_to env enc (model_device env model) w1 = (Inr inputs, w2)"
    and "model_generate env model args w2 = (Inl e, w3)"
    by simp_all
  from generate_text_body_generate_raises [OF this(1,2) args this(3)]
  show "generate_text env prompt model tokenizer max_length temperature top_p
          num_return_sequences s =
          (Inl (FrameworkError e),
           \<lparr>world = w3, calls = calls s @
              [(Call_tokenizer prompt ''pt'', Returned),
               (Call_to (model_device env model), Returned),
               (Call_generate args, Raised e)]\<rparr>)"
    by (simp add: generate_text_def)
next
  assume "tokenizer_call env tokenizer prompt ''pt'' (world s) = (Inr enc, w1) \<and>
      encoding_to env enc (model_device env model) w1 = (Inr inputs, w2) \<and>
      model_generate env model args w2 = (Inr (pre @ row # post), w3) \<and>
      generated_texts env tokenizer pre
        \<lparr>world = w3, calls = calls s @
           [(Call_tokenizer prompt ''pt'', Returned),
            (Call_to (model_device env model), Returned),
            (Call_generate args, Returned)]\<rparr> = (Inr texts, s4) \<and>
      tokenizer_decode env tokenizer row True (world s4) = (Inl e, w5)"
  then have "tokenizer_call env tokenizer prompt ''pt'' (world s) = (Inr enc, w1)"
    and "encoding_to env enc (model_device env model) w1 = (Inr inputs, w2)"
    and "model_generate env model args w2 = (Inr (pre @ row # post), w3)"
    and "generated_texts env tokenizer pre
        \<lparr>world = w3, calls = calls s @
           [(Call_tokenizer prompt ''pt'', Returned),
            (Call_to (model_device env model), Returned),
            (Call_generate args, Returned)]\<rparr> = (Inr texts, s4)"
    and "tokenizer_decode env tokenizer row True (world s4) = (Inl e, w5)"
    by simp_all
  from generate_text_body_decode_raises [OF this(1,2) args this(3,4,5)]
  show "generate_text env prompt model tokenizer max_length temperature top_p
          num_return_sequences s =
          (Inl (FrameworkError e),
           \<lparr>world = w5, calls = calls s4 @ [(Call_decode row True, Raised e)]\<rparr>)"
    by (simp add: generate_text_def)
qed

theorem library_exceptions_propagate_witness:
  "load_model (demo_env_raising ''AutoTokenizer'') None start =
     (Inl (FrameworkError ''offline''),
      \<lparr>world = 0, calls =
         [(Call_AutoTokenizer_from_pretrained ''deepseek-ai/DeepSeek-R1-Distill-Llama-70B'',
           Raised ''offline'')]\<rparr>) \<and>
   load_model (demo_env False) None start =
     (Inl (FrameworkError ''out of memory''),
      \<lparr>world = 0, calls =
         [(Call_AutoTokenizer_from_pretrained ''deepseek-ai/DeepSeek-R1-Distill-Llama-70B'',
           Returned),
          (Call_AutoModelForCausalLM_from_pretrained
             \<lparr>arg_model_name = ''deepseek-ai/DeepSeek-R1-Distill-Llama-70B'',
              kw_torch_dtype = float16, kw_device_map = ''auto'',
              kw_trust_remote_code = True\<rparr>,
           Raised ''out of memory'')]\<rparr>) \<and>
   generate_text (demo_env_raising ''tokenizer'') ''hello'' ''m'' ''t'' None None None None start =
     (Inl (FrameworkError ''bad prompt''),
      \<lparr>world = 0, calls = [(Call_tokenizer ''hello'' ''pt'', Raised ''bad prompt'')]\<rparr>) \<and>
   generate_text (demo_env_raising ''to'') ''hello'' ''m'' ''t'' None None None None start =
     (Inl (FrameworkError ''no device''),
      \<lparr>world = 0, calls =
         [(Call_tokenizer ''hello'' ''pt'', Returned),
          (Call_to ''cuda:0'', Raised ''no device'')]\<rparr>) \<and>
   generate_text (demo_env True) ''hello'' ''m'' ''t'' None None None (Some (PyInt (- 1))) start =
     (Inl (FrameworkError ''bad count''),
      \<lparr>world = 0, calls =
         [(Call_tokenizer ''hello'' ''pt'', Returned),
          (Call_to ''cuda:0'', Returned),
          (Call_generate
             \<lparr>arg_input_ids = [[5]], kw_max_length = PyInt 100,
              kw_temperature = PyFloat 0.7, kw_do_sample = True, kw_top_p = PyFloat 0.9,
              kw_num_return_sequences = PyInt (- 1), kw_pad_token_id = Some 2\<rparr>,
           Raised ''bad count'')]\<rparr>) \<and>
   generate_text (demo_env_raising ''decode'') ''hello'' ''m'' ''t'' None None None
       (Some (PyInt 3)) start =
     (Inl (FrameworkError ''bad token''),
      \<lparr>world = 1, calls =
         [(Call_tokenizer ''hello'' ''pt'', Returned),
          (Call_to ''cuda:0'', Returned),
          (Call_generate
             \<lparr>arg_input_ids = [[5]], kw_max_length = PyInt 100,
              kw_temperature = PyFloat 0.7, kw_do_sample = True, kw_top_p = PyFloat 0.9,
              kw_num_return_sequences = PyInt 3, kw_pad_token_id = Some 2\<rparr>,
           Returned),
          (Call_decode [0] True, Returned),
          (Call_decode [1] True, Raised ''bad token'')]\<rparr>)"
proof -
  have three: "[0..<3] = [0, 1, 2]"
    by (simp add: upt_rec)
  have first: "load_model (demo_env_raising ''AutoTokenizer'') None start =
     (Inl (FrameworkError ''offline''),
      \<lparr>world = 0, calls =
         [(Call_AutoTokenizer_from_pretrained ''deepseek-ai/DeepSeek-R1-Distill-Llama-70B'',
           Raised ''offline'')]\<rparr>)"
    using library_exceptions_propagate [where model_name = None
        and env = "demo_env_raising ''AutoTokenizer''" and s = start and e = "''offline''"
        and ?v1.0 = 0, OF refl refl refl, THEN conjunct1]
    by (simp add: demo_env_raising_def demo_env_def start_def)
  have second: "load_model (demo_env False) None start =
     (Inl (FrameworkError ''out of memory''),
      \<lparr>world = 0, calls =
         [(Call_AutoTokenizer_from_pretrained ''deepseek-ai/DeepSeek-R1-Distill-Llama-70B'',
           Returned),
          (Call_AutoModelForCausalLM_from_pretrained
             \<lparr>arg_model_name = ''deepseek-ai/DeepSeek-R1-Distill-Llama-70B'',
              kw_torch_dtype = float16, kw_device_map = ''auto'',
              kw_trust_remote_code = True\<rparr>,
           Raised ''out of memory'')]\<rparr>)"
    using library_exceptions_propagate [where model_name = None
        and env = "demo_env False" and s = start and e = "''out of memory''"
        and tok = "''deepseek-ai/DeepSeek-R1-Distill-Llama-70B''"
        and ?v1.0 = 0 and ?v2.0 = 0, OF refl refl refl, THEN conjunct2, THEN conjunct1]
    by (simp add: demo_env_def start_def)
  have third: "generate_text (demo_env_raising ''tokenizer'') ''hello'' ''m'' ''t''
        None None None None start =
     (Inl (FrameworkError ''bad prompt''),
      \<lparr>world = 0, calls = [(Call_tokenizer ''hello'' ''pt'', Raised ''bad prompt'')]\<rparr>)"
    using library_exceptions_propagate [where env = "demo_env_raising ''tokenizer''"
        and prompt = "''hello''" and model = "''m''" and tokenizer = "''t''"
        and max_length = None and temperature = None and top_p = None
        and num_return_sequences = None and s = start and e = "''bad prompt''" and ?w1.0 = 0,
        OF refl refl refl, THEN conjunct2, THEN conjunct2, THEN conjunct1]
    by (simp add: demo_env_raising_def demo_env_def start_def)
  have fourth: "generate_text (demo_env_raising ''to'') ''hello'' ''m'' ''t''
        None None None None start =
     (Inl (FrameworkError ''no device''),
      \<lparr>world = 0, calls =
         [(Call_tokenizer ''hello'' ''pt'', Returned),
          (Call_to ''cuda:0'', Raised ''no device'')]\<rparr>)"
    using library_exceptions_propagate [where env = "demo_env_raising ''to''"
        and prompt = "''hello''" and model = "''m''" and tokenizer = "''t''"
        and max_length = None and temperature = None and top_p = None
        and num_return_sequences = None and s = start and e = "''no device''"
        and enc = "\<lparr>input_ids = [[5]]\<rparr>" and ?w1.0 = 0 and ?w2.0 = 0,
        OF refl refl refl, THEN conjunct2, THEN conjunct2, THEN conjunct2, THEN conjunct1]
    by (simp add: demo_env_raising_def demo_env_def start_def)
  have fifth: "generate_text (demo_env True) ''hello'' ''m'' ''t'' None None None
        (Some (PyInt (- 1))) start =
     (Inl (FrameworkError ''bad count''),
      \<lparr>world = 0, calls =
         [(Call_tokenizer ''hello'' ''pt'', Returned),
          (Call_to ''cuda:0'', Returned),
          (Call_generate
             \<lparr>arg_input_ids = [[5]], kw_max_length = PyInt 100,
              kw_temperature = PyFloat 0.7, kw_do_sample = True, kw_top_p = PyFloat 0.9,
              kw_num_return_sequences = PyInt (- 1), kw_pad_token_id = Some 2\<rparr>,
           Raised ''bad count'')]\<rparr>)"
    using library_exceptions_propagate [where env = "demo_env True"
        and prompt = "''hello''" and model = "''m''" and tokenizer = "''t''"
        and max_length = None and temperature = None and top_p = None
        and num_return_sequences = "Some (PyInt (- 1))" and s = start and e = "''bad count''"
        and enc = "\<lparr>input_ids = [[5]]\<rparr>" and inputs = "\<lparr>input_ids = [[5]]\<rparr>"
        and ?w1.0 = 0 and ?w2.0 = 0 and ?w3.0 = 0,
        OF refl refl refl, THEN conjunct2, THEN conjunct2, THEN conjunct2, THEN conjunct2,
        THEN conjunct1]
    by (simp add: demo_env_def start_def)
  have sixth: "generate_text (demo_env_raising ''decode'') ''hello'' ''m'' ''t'' None None None
       (Some (PyInt 3)) start =
     (Inl (FrameworkError ''bad token''),
      \<lparr>world = 1, calls =
         [(Call_tokenizer ''hello'' ''pt'', Returned),
          (Call_to ''cuda:0'', Returned),
          (Call_generate
             \<lparr>arg_input_ids = [[5]], kw_max_length = PyInt 100,
              kw_temperature = PyFloat 0.7, kw_do_sample = True, kw_top_p = PyFloat 0.9,
              kw_num_return_sequences = PyInt 3, kw_pad_token_id = Some 2\<rparr>,
           Returned),
          (Call_decode [0] True, Returned),
          (Call_decode [1] True, Raised ''bad token'')]\<rparr>)"
    using library_exceptions_propagate [where env = "demo_env_raising ''decode''"
        and prompt = "''hello''" and model = "''m''" and tokenizer = "''t''"
        and max_length = None and temperature = None and top_p = None
        and num_return_sequences = "Some (PyInt 3)" and s = start and e = "''bad token''"
        and enc = "\<lparr>input_ids = [[5]]\<rparr>" and inputs = "\<lparr>input_ids = [[5]]\<rparr>"
        and ?w1.0 = 0 and ?w2.0 = 0 and ?w3.0 = 1 and pre = "[[0]]" and row = "[1]"
        and post = "[[2]]" and texts = "['''']"
        and ?s4.0 = "\<lparr>world = 1, calls =
         [(Call_tokenizer ''hello'' ''pt'', Returned),
          (Call_to ''cuda:0'', Returned),
          (Call_generate
             \<lparr>arg_input_ids = [[5]], kw_max_length = PyInt 100,
              kw_temperature = PyFloat 0.7, kw_do_sample = True, kw_top_p = PyFloat 0.9,
              kw_num_return_sequences = PyInt 3, kw_pad_token_id = Some 2\<rparr>,
           Returned),
          (Call_decode [0] True, Returned)]\<rparr>" and ?w5.0 = 1,
        OF refl refl refl, THEN conjunct2, THEN conjunct2, THEN conjunct2, THEN conjunct2,
        THEN conjunct2]
    by (simp add: demo_env_raising_def demo_env_def start_def ext_def three)
  from first second third fourth fifth sixth show ?thesis
    by (intro conjI)
qed

section \<open>The runs of \<open>clear_gpu_memory\<close>\<close>

text \<open>A device that reports more bytes than a float can hold ends the report with
  \<open>OverflowError\<close>, before anything is printed for it.\<close>

lemma report_devices_overflow:
  assumes "torch_cuda_memory_allocated env i (world s) = (Inr bytes, w)"
    and "\<not> fits_float bytes"
  shows "report_devices env (i # devices) s =
         (Inl OverflowError,
          \<lparr>world = w, calls = calls s @ [(Call_memory_allocated i, Returned)]\<rparr>)"
  using assms by (simp add: ext_Inr)





lemma clear_gpu_memory_not_available:
  assumes "gc_collect env (world s) = (Inr u1, w1)"
    and "torch_cuda_empty_cache env w1 = (Inr u2, w2)"
    and "torch_cuda_is_available env w2 = (Inr False, w3)"
  shows "clear_gpu_memory env s =
         (Inr (),
          \<lparr>world = w3, calls = calls s @
             [(Call_gc_collect, Returned), (Call_empty_cache, Returned),
              (Call_is_available, Returned)]\<rparr>)"
  using assms by (simp add: clear_gpu_memory_def ext_def)




text \<open>
  Claim C4. When \<open>gc.collect\<close> and \<open>torch.cuda.empty_cache\<close> return and
  \<open>torch.cuda.is_available\<close> answers \<open>False\<close>, \<open>clear_gpu_memory\<close> returns without
  an exception, after these three calls and no other: nothing is printed.
\<close>

theorem clear_gpu_memory_without_accelerator:
  fixes env :: "('w, 'e, 'm, 't) env"
  shows
    "\<forall>w1 w2 w3.
        gc_collect env (world s) = (Inr (), w1) \<and>
        torch_cuda_empty_cache env w1 = (Inr (), w2) \<and>
        torch_cuda_is_available env w2 = (Inr False, w3) \<longrightarrow>
        clear_gpu_memory env s =
          (Inr (),
           \<lparr>world = w3, calls = calls s @
              [(Call_gc_collect, Returned), (Call_empty_cache, Returned),
               (Call_is_available, Returned)]\<rparr>)"
proof (intro allI impI)
  fix w1 w2 w3
  assume "gc_collect env (world s) = (Inr (), w1) \<and>
        torch_cuda_empty_cache env w1 = (Inr (), w2) \<and>
        torch_cuda_is_available env w2 = (Inr False, w3)"
  then show "clear_gpu_memory env s =
          (Inr (),
           \<lparr>world = w3, calls = calls s @
              [(Call_gc_collect, Returned), (Call_empty_cache, Returned),
               (Call_is_available, Returned)]\<rparr>)"
    using clear_gpu_memory_not_available [of env s "()" w1 "()" w2 w3] by simp
qed

theorem clear_gpu_memory_without_accelerator_witness:
  "clear_gpu_memory (demo_env False) start =
     (Inr (),
      \<lparr>world = 0, calls = calls start @
         [(Call_gc_collect, Returned), (Call_empty_cache, Returned),
          (Call_is_available, Returned)]\<rparr>)"
proof -
  have "gc_collect (demo_env False) (world start) = (Inr (), 0) \<and>
        torch_cuda_empty_cache (demo_env False) 0 = (Inr (), 0) \<and>
        torch_cuda_is_available (demo_env False) 0 = (Inr False, 0)"
    by (simp add: demo_env_def start_def)
  with clear_gpu_memory_without_accelerator [where env = "demo_env False" and s = start,
      rule_format]
  show ?thesis .
qed



end
